theory Spec2Isabelle
  imports Complex_Main "HOL-Library.Sublist"
begin

section \<open>Strings of the host language\<close>

text \<open>
  A \<open>str\<close> is represented by its UTF-8 encoding and a \<open>bytes\<close> object by its bytes:
  both are byte lists. The functions of this section are the Python library functions
  that \<open>v2.py\<close> calls: \<open>bytes.decode()\<close>, \<open>str.strip()\<close>, \<open>str.lower()\<close>,
  \<open>str(int)\<close>, \<open>int(str)\<close>, \<open>str.split('\n')\<close>, \<open>str.replace(old, '')\<close> and the
  class \<open>\S\<close> of \<open>re\<close>.
\<close>

definition byte :: "char \<Rightarrow> nat" where
  "byte c = of_char c"

subsection \<open>\<open>str(int)\<close>\<close>

definition digit_char :: "nat \<Rightarrow> char" where
  "digit_char d = ''0123456789'' ! d"

fun str_nat :: "nat \<Rightarrow> string" where
  "str_nat n = (if n < 10 then [digit_char n] else str_nat (n div 10) @ [digit_char (n mod 10)])"

declare str_nat.simps [simp del]

definition str_int :: "int \<Rightarrow> string" where
  "str_int i = (if i < 0 then CHR ''-'' # str_nat (nat (- i)) else str_nat (nat i))"

subsection \<open>\<open>bytes.decode()\<close>: strict UTF-8\<close>

definition is_cont :: "char \<Rightarrow> bool" where
  "is_cont c = (128 \<le> byte c \<and> byte c \<le> 191)"

text \<open>
  What the decoder finds at the head of a non-empty input: a character of 1 to 4 bytes,
  a byte that cannot start a character, a character broken after its first \<open>k\<close> bytes by
  a byte that cannot continue it, or a character cut short by the end of the input.
\<close>

datatype utf8_head = Char nat | BadStart | BadCont nat | Truncated

fun utf8_step :: "string \<Rightarrow> utf8_head" where
  "utf8_step [] = Truncated"
| "utf8_step (c # cs) =
     (if byte c < 128 then Char 1
      else if byte c < 224 then
        (if byte c < 194 then BadStart
         else (case cs of
                 [] \<Rightarrow> Truncated
               | c2 # r2 \<Rightarrow> if is_cont c2 then Char 2 else BadCont 1))
      else if byte c < 240 then
        (case cs of
           [] \<Rightarrow> Truncated
         | c2 # r2 \<Rightarrow>
             if \<not> is_cont c2 \<or> (if byte c2 < 160 then byte c = 224 else byte c = 237)
             then BadCont 1
             else (case r2 of
                     [] \<Rightarrow> Truncated
                   | c3 # r3 \<Rightarrow> if is_cont c3 then Char 3 else BadCont 2))
      else if byte c < 245 then
        (case cs of
           [] \<Rightarrow> Truncated
         | c2 # r2 \<Rightarrow>
             if \<not> is_cont c2 \<or> (if byte c2 < 144 then byte c = 240 else byte c = 244)
             then BadCont 1
             else (case r2 of
                     [] \<Rightarrow> Truncated
                   | c3 # r3 \<Rightarrow>
                       if \<not> is_cont c3 then BadCont 2
                       else (case r3 of
                               [] \<Rightarrow> Truncated
                             | c4 # r4 \<Rightarrow> if is_cont c4 then Char 4 else BadCont 3)))
      else BadStart)"

text \<open>
  The first error of the input, if any: where it starts, where it ends (exclusive), the
  byte it starts with and the decoder's reason.
\<close>

fun utf8_scan :: "nat \<Rightarrow> string \<Rightarrow> (nat \<times> nat \<times> char \<times> string) option" where
  "utf8_scan pos [] = None"
| "utf8_scan pos (c # cs) =
     (case utf8_step (c # cs) of
        Char n \<Rightarrow> utf8_scan (pos + n) (drop (n - 1) cs)
      | BadStart \<Rightarrow> Some (pos, pos + 1, c, ''invalid start byte'')
      | BadCont k \<Rightarrow> Some (pos, pos + k, c, ''invalid continuation byte'')
      | Truncated \<Rightarrow> Some (pos, pos + length (c # cs), c, ''unexpected end of data''))"

definition hex2 :: "nat \<Rightarrow> string" where
  "hex2 b = [''0123456789abcdef'' ! (b div 16), ''0123456789abcdef'' ! (b mod 16)]"

text \<open>The text of the \<open>UnicodeDecodeError\<close>.\<close>

definition decode_error_text :: "nat \<times> nat \<times> char \<times> string \<Rightarrow> string" where
  "decode_error_text err =
     (case err of (start, stop, c, reason) \<Rightarrow>
        [CHR 0x27] @ ''utf-8'' @ [CHR 0x27] @
        (if stop = start + 1
         then '' codec can't decode byte 0x'' @ hex2 (byte c) @ '' in position '' @ str_nat start
         else '' codec can't decode bytes in position '' @ str_nat start @ ''-''
                @ str_nat (stop - 1))
        @ '': '' @ reason)"


text \<open>\<open>bs.decode()\<close>: \<open>Inl\<close> is the text of the error raised, \<open>Inr\<close> the string.\<close>

definition decode :: "string \<Rightarrow> string + string" where
  "decode bs = (case utf8_scan 0 bs of None \<Rightarrow> Inr bs | Some err \<Rightarrow> Inl (decode_error_text err))"

subsection \<open>Whitespace, \<open>str.strip()\<close>\<close>

text \<open>
  The number of bytes of the whitespace character a string starts with (0 when it starts
  with none). Whitespace is what \<open>str.isspace\<close> accepts: U+0009 to U+000D, U+001C to
  U+0020, U+0085, U+00A0, U+1680, U+2000 to U+200A, U+2028, U+2029, U+202F, U+205F, U+3000.
\<close>

definition ws_len :: "string \<Rightarrow> nat" where
  "ws_len s =
     (case s of
        [] \<Rightarrow> 0
      | c # cs \<Rightarrow>
          if (9 \<le> byte c \<and> byte c \<le> 13) \<or> (28 \<le> byte c \<and> byte c \<le> 32) then 1
          else if byte c = 194 then
            (case cs of
               c2 # r2 \<Rightarrow> if byte c2 = 133 \<or> byte c2 = 160 then 2 else 0
             | [] \<Rightarrow> 0)
          else if byte c = 225 then
            (case cs of
               c2 # c3 # r3 \<Rightarrow> if byte c2 = 154 \<and> byte c3 = 128 then 3 else 0
             | _ \<Rightarrow> 0)
          else if byte c = 226 then
            (case cs of
               c2 # c3 # r3 \<Rightarrow>
                 if (byte c2 = 128 \<and> ((128 \<le> byte c3 \<and> byte c3 \<le> 138) \<or> byte c3 = 168
                                        \<or> byte c3 = 169 \<or> byte c3 = 175))
                    \<or> (byte c2 = 129 \<and> byte c3 = 159)
                 then 3 else 0
             | _ \<Rightarrow> 0)
          else if byte c = 227 then
            (case cs of
               c2 # c3 # r3 \<Rightarrow> if byte c2 = 128 \<and> byte c3 = 128 then 3 else 0
             | _ \<Rightarrow> 0)
          else 0)"

fun lstrip :: "string \<Rightarrow> string" where
  "lstrip [] = []"
| "lstrip (c # cs) =
     (if ws_len (c # cs) = 0 then c # cs else lstrip (drop (ws_len (c # cs) - 1) cs))"

text \<open>The same for the character a string ends with, read off the reversed string.\<close>

definition ws_len_end :: "string \<Rightarrow> nat" where
  "ws_len_end r =
     (if ws_len (rev (take 1 r)) = 1 then 1
      else if ws_len (rev (take 2 r)) = 2 then 2
      else if ws_len (rev (take 3 r)) = 3 then 3
      else 0)"

fun rstrip_rev :: "string \<Rightarrow> string" where
  "rstrip_rev [] = []"
| "rstrip_rev (c # cs) =
     (if ws_len_end (c # cs) = 0 then c # cs else rstrip_rev (drop (ws_len_end (c # cs) - 1) cs))"

definition strip :: "string \<Rightarrow> string" where
  "strip s = rev (rstrip_rev (rev (lstrip s)))"

text \<open>The longest prefix without whitespace: what \<open>\S+\<close> can match at most.\<close>

fun nonspace_run :: "string \<Rightarrow> string" where
  "nonspace_run [] = []"
| "nonspace_run (c # cs) = (if ws_len (c # cs) = 0 then c # nonspace_run cs else [])"

subsection \<open>\<open>int(str)\<close>\<close>

text \<open>
  \<open>int(s)\<close> in base 10. A string with a character beyond ASCII is first rewritten:
  the characters below U+007F stay, whitespace beyond ASCII becomes a blank, a decimal
  digit of any script becomes its ASCII digit, and any other character makes the
  conversion fail. \<open>nd_zeros\<close> lists the digit zero of every script with decimal digits
  (Unicode 14.0, the tables of CPython 3.11); its nine successors are the digits 1 to 9.
\<close>

definition nd_zeros :: "nat list" where
  "nd_zeros =
     [48, 1632, 1776, 1984, 2406, 2534, 2662, 2790, 2918, 3046, 3174, 3302, 3430, 3558,
      3664, 3792, 3872, 4160, 4240, 6112, 6160, 6470, 6608, 6784, 6800, 6992, 7088, 7232,
      7248, 42528, 43216, 43264, 43472, 43504, 43600, 44016, 65296, 66720, 68912, 69734,
      69872, 69942, 70096, 70384, 70736, 70864, 71248, 71360, 71472, 71904, 72016, 72784,
      73040, 73120, 92768, 92864, 93008, 120782, 120792, 120802, 120812, 120822, 123200,
      123632, 125264, 130032]"

definition decimal_of :: "nat \<Rightarrow> nat option" where
  "decimal_of cp =
     (case find (\<lambda>z. z \<le> cp \<and> cp < z + 10) nd_zeros of
        None \<Rightarrow> None
      | Some z \<Rightarrow> Some (cp - z))"

text \<open>The code point of one well-formed character, given by its bytes.\<close>

definition code_point :: "string \<Rightarrow> nat" where
  "code_point ch =
     (case map byte ch of
        [b1] \<Rightarrow> b1
      | [b1, b2] \<Rightarrow> (b1 - 192) * 64 + (b2 - 128)
      | [b1, b2, b3] \<Rightarrow> (b1 - 224) * 4096 + (b2 - 128) * 64 + (b3 - 128)
      | [b1, b2, b3, b4] \<Rightarrow> (b1 - 240) * 262144 + (b2 - 128) * 4096 + (b3 - 128) * 64 + (b4 - 128)
      | _ \<Rightarrow> 0)"

fun to_ascii :: "string \<Rightarrow> string option" where
  "to_ascii [] = Some []"
| "to_ascii (c # cs) =
     (case utf8_step (c # cs) of
        Char n \<Rightarrow>
          (if byte c < 127 then map_option ((#) c) (to_ascii cs)
           else if ws_len (c # cs) = n then
             map_option ((#) CHR '' '') (to_ascii (drop (n - 1) cs))
           else
             (case decimal_of (code_point (take n (c # cs))) of
                None \<Rightarrow> None
              | Some d \<Rightarrow> map_option ((#) (digit_char d)) (to_ascii (drop (n - 1) cs))))
      | _ \<Rightarrow> None)"

text \<open>
  The conversion of the ASCII text: blanks of the C locale (9 to 13 and 32) around an
  optional sign and decimal digits with single underscores between them, at most 4300
  digits (the default limit of the interpreter). \<open>None\<close> is the \<open>ValueError\<close>.
\<close>

definition c_isspace :: "char \<Rightarrow> bool" where
  "c_isspace c = ((9 \<le> byte c \<and> byte c \<le> 13) \<or> byte c = 32)"

definition is_digit :: "char \<Rightarrow> bool" where
  "is_digit c = (48 \<le> byte c \<and> byte c \<le> 57)"

fun digits_ok :: "string \<Rightarrow> bool" where
  "digits_ok [] = False"
| "digits_ok [c] = is_digit c"
| "digits_ok (c # d # cs) =
     (is_digit c \<and> (if d = CHR ''_'' then digits_ok cs else digits_ok (d # cs)))"

definition digits_val :: "string \<Rightarrow> nat" where
  "digits_val s = foldl (\<lambda>n c. 10 * n + (byte c - 48)) 0 (filter (\<lambda>c. c \<noteq> CHR ''_'') s)"

definition digits_int :: "string \<Rightarrow> int option" where
  "digits_int ds =
     (if digits_ok ds \<and> length (filter is_digit ds) \<le> 4300 then Some (int (digits_val ds))
      else None)"

definition parse_ascii :: "string \<Rightarrow> int option" where
  "parse_ascii s =
     (case rev (dropWhile c_isspace (rev (dropWhile c_isspace s))) of
        [] \<Rightarrow> None
      | c # cs \<Rightarrow>
          if c = CHR ''-'' then map_option uminus (digits_int cs)
          else if c = CHR ''+'' then digits_int cs
          else digits_int (c # cs))"

definition py_int :: "string \<Rightarrow> int option" where
  "py_int s =
     (if list_all (\<lambda>c. byte c < 128) s then parse_ascii s
      else (case to_ascii s of None \<Rightarrow> None | Some a \<Rightarrow> parse_ascii a))"

subsection \<open>\<open>str.lower()\<close>, \<open>str.split\<close>, \<open>in\<close>\<close>

definition lower_char :: "char \<Rightarrow> char" where
  "lower_char c =
     (case map_of (zip ''ABCDEFGHIJKLMNOPQRSTUVWXYZ'' ''abcdefghijklmnopqrstuvwxyz'') c of
        Some l \<Rightarrow> l
      | None \<Rightarrow> c)"

text \<open>
  \<open>s.lower()\<close> on the letters A to Z; the other characters are left as they are.
  Python lowers letters beyond ASCII as well. The result is compared with the words
  \<open>all\<close>, \<open>status\<close>, \<open>enable\<close> and \<open>disable\<close> only, and the outcome of
  those comparisons is the same: the characters beyond ASCII whose lower case has an
  ASCII letter are U+0130 (an \<open>i\<close> followed by U+0307) and U+212A (a \<open>k\<close>).
\<close>

definition lower :: "string \<Rightarrow> string" where
  "lower s = map lower_char s"

fun split_lines_acc :: "string \<Rightarrow> string \<Rightarrow> string list" where
  "split_lines_acc cur [] = [rev cur]"
| "split_lines_acc cur (c # cs) =
     (if c = CHR 0x0A then rev cur # split_lines_acc [] cs else split_lines_acc (c # cur) cs)"

definition split_lines :: "string \<Rightarrow> string list" where
  "split_lines s = split_lines_acc [] s"

fun contains :: "string \<Rightarrow> string \<Rightarrow> bool" where
  "contains pat [] = (pat = [])"
| "contains pat (c # cs) = (prefix pat (c # cs) \<or> contains pat cs)"

section \<open>Process Runner: \<open>execute_incus\<close>\<close>

text \<open>
  What the external process did, as \<open>execute_incus\<close> observes it: the wait expired
  (\<open>asyncio.TimeoutError\<close>), the process could not be started or the command line
  could not be split (any other exception, with its text), or the process exited with a
  return code and the bytes captured from its two streams.
\<close>

datatype proc_outcome =
    TimedOut
  | SpawnError string
  | Exited int string string

text \<open>The value returned on exit code 0: the stripped stdout, or \<open>True\<close> when it is empty.\<close>

datatype run_value = Output string | NoOutput

text \<open>Calls of the module's logger, one constructor per call site that is modelled.\<close>

datatype log_entry =
    IncusFailed string int string string
  | IncusSucceeded string string
  | IncusTimedOut nat string
  | IncusError string string
  | IpError string string
  | StaticIpError string string
  | DataSaved
  | CpuUsage real
  | CpuExceeded real
  | AllStopped
  | StopAllError
  | UnknownFormat string
  | DataFileMissing

definition empty_stderr_marker :: string where
  "empty_stderr_marker = ''Unknown error (empty stderr)''"

definition error_msg :: "string \<Rightarrow> string \<Rightarrow> string \<Rightarrow> string" where
  "error_msg command stdout_str stderr_str =
     (if stderr_str = [] then empty_stderr_marker else stderr_str)
       @ ''. Command: '' @ command @ ''. STDOUT: '' @ stdout_str"

definition timeout_msg :: "nat \<Rightarrow> string" where
  "timeout_msg timeout =
     ''Command timed out after '' @ str_nat timeout
       @ '' seconds - container may be unresponsive. Try manual stop or increase timeout.''"

text \<open>\<open>b.decode().strip() if b else ""\<close>\<close>

definition decoded :: "string \<Rightarrow> string + string" where
  "decoded b =
     (if b = [] then Inr []
      else (case decode b of Inl e \<Rightarrow> Inl e | Inr s \<Rightarrow> Inr (strip s)))"

text \<open>
  The result of one run: \<open>Inl\<close> carries the text of the raised exception, \<open>Inr\<close> the
  returned value; the second component is what the run writes to the logger. The two
  streams are decoded, stdout first, before the return code is looked at; a stream that
  is not UTF-8 raises there, and the last \<open>except\<close> logs and re-raises that error.
\<close>

definition run_result :: "string \<Rightarrow> nat \<Rightarrow> proc_outcome \<Rightarrow> (string + run_value) \<times> log_entry list" where
  "run_result command timeout out =
     (case out of
        TimedOut \<Rightarrow>
          (Inl (timeout_msg timeout), [IncusTimedOut timeout command])
      | SpawnError e \<Rightarrow>
          (Inl e, [IncusError command e])
      | Exited returncode stdout stderr \<Rightarrow>
          (case decoded stdout of
             Inl e \<Rightarrow> (Inl e, [IncusError command e])
           | Inr stdout_str \<Rightarrow>
               (case decoded stderr of
                  Inl e \<Rightarrow> (Inl e, [IncusError command e])
                | Inr stderr_str \<Rightarrow>
                    if returncode \<noteq> 0 then
                      (Inl (error_msg command stdout_str stderr_str),
                       [IncusFailed command returncode stderr_str stdout_str,
                        IncusError command (error_msg command stdout_str stderr_str)])
                    else
                      (Inr (if stdout_str \<noteq> [] then Output stdout_str else NoOutput),
                       [IncusSucceeded command stdout_str]))))"


section \<open>Data model\<close>

text \<open>
  A VPS record is the dictionary built by \<open>slash_create\<close> and \<open>slash_buywc\<close>. The keys
  read with \<open>vps[...]\<close> are fields; the keys read with \<open>vps.get(...)\<close> or tested
  with \<open>in\<close> may be absent and are options. The owner of a record is the key of
  \<open>vps_data\<close> under which its list is stored.
\<close>

record vps =
  container_name :: string
  ram :: string
  cpu :: string
  storage :: string
  status :: "string option"
  created_at :: "string option"
  ipv4 :: "string option"
  ipv6 :: "string option"
  plan :: "string option"
  processor :: "string option"
  shared_with :: "string list option"

text \<open>
  The module's global state: the three dictionaries, their last saved copies (the three
  JSON files), the command lines handed to the container runtime so far, the logger's
  output, the monitor flag, and whether the thread running \<open>cpu_monitor\<close> has not yet
  returned from it.
\<close>

record world =
  user_data :: "string \<rightharpoonup> int"
  vps_data :: "string \<rightharpoonup> vps list"
  admin_data :: "string list"
  disk_user_data :: "string \<rightharpoonup> int"
  disk_vps_data :: "string \<rightharpoonup> vps list"
  disk_admin_data :: "string list"
  calls :: "string list"
  logs :: "log_entry list"
  cpu_monitor_active :: bool
  cpu_thread_alive :: bool

text \<open>
  The container runtime is outside the program: its answer to the \<open>n\<close>-th command line
  the program issues is a parameter of every operation.
\<close>

type_synonym runtime = "nat \<Rightarrow> string \<Rightarrow> proc_outcome"

text \<open>The embeds an operation sends, in order; only error embeds keep their description.\<close>

datatype reply =
    SuccessEmbed string
  | ErrorEmbed string string
  | InfoEmbed string
  | WarningEmbed string

definition mention :: "string \<Rightarrow> string" where
  "mention uid = ''<@'' @ uid @ ''>''"

definition logmsg :: "log_entry \<Rightarrow> world \<Rightarrow> world" where
  "logmsg e w = w\<lparr>logs := logs w @ [e]\<rparr>"

text \<open>
  \<open>save_data\<close> writes the three dictionaries to their files. (A failing write is caught
  and logged in the source; the model writes all three.)
\<close>

definition save_data :: "world \<Rightarrow> world" where
  "save_data w =
     w\<lparr>disk_user_data := user_data w, disk_vps_data := vps_data w,
       disk_admin_data := admin_data w, logs := logs w @ [DataSaved]\<rparr>"

definition execute_incus :: "runtime \<Rightarrow> string \<Rightarrow> nat \<Rightarrow> world \<Rightarrow> (string + run_value) \<times> world" where
  "execute_incus rt command timeout w =
     (case run_result command timeout (rt (length (calls w)) command) of
        (r, ls) \<Rightarrow> (r, w\<lparr>calls := calls w @ [command], logs := logs w @ ls\<rparr>))"

section \<open>Network Inspector: \<open>get_container_ips\<close>\<close>

text \<open>
  \<open>re.search(pre + r'(\S+)/', line)\<close>: at the leftmost occurrence of the literal
  \<open>pre\<close> that is followed by a run of non-space characters holding a \<open>/\<close> after at
  least one character, the group is the run up to its last such \<open>/\<close>.
\<close>

definition match_group :: "string \<Rightarrow> string option" where
  "match_group s =
     (let run = nonspace_run s;
          js = filter (\<lambda>j. run ! j = CHR ''/'') [1..<length run]
      in if js = [] then None else Some (take (last js) run))"

fun re_search :: "string \<Rightarrow> string \<Rightarrow> string option" where
  "re_search pre [] = None"
| "re_search pre (c # cs) =
     (if prefix pre (c # cs) then
        (case match_group (drop (length pre) (c # cs)) of
           Some g \<Rightarrow> Some g
         | None \<Rightarrow> re_search pre cs)
      else re_search pre cs)"

definition take_first :: "string \<Rightarrow> string \<Rightarrow> string \<Rightarrow> string" where
  "take_first pre line cur =
     (if contains pre line then
        (case re_search pre line of
           Some g \<Rightarrow> if cur = ''Not assigned'' then g else cur
         | None \<Rightarrow> cur)
      else cur)"

fun scan_ips :: "string \<times> string \<Rightarrow> string list \<Rightarrow> string \<times> string" where
  "scan_ips (v4, v6) [] = (v4, v6)"
| "scan_ips (v4, v6) (line # ls) =
     scan_ips (take_first ''inet '' line v4, take_first ''inet6 '' line v6) ls"

text \<open>The text of the \<open>AttributeError\<close> raised by \<open>True.split\<close>.\<close>

definition bool_has_no_split :: string where
  "bool_has_no_split =
     [CHR 0x27] @ ''bool'' @ [CHR 0x27] @ '' object has no attribute ''
       @ [CHR 0x27] @ ''split'' @ [CHR 0x27]"

definition get_container_ips :: "runtime \<Rightarrow> string \<Rightarrow> world \<Rightarrow> (string \<times> string) \<times> world" where
  "get_container_ips rt name w =
     (case execute_incus rt (''incus exec '' @ name @ '' -- ip addr show eth0'') 60 w of
        (Inl e, w') \<Rightarrow> ((''Error'', ''Error''), logmsg (IpError name e) w')
      | (Inr NoOutput, w') \<Rightarrow>
          ((''Error'', ''Error''),
           logmsg (IpError name bool_has_no_split) w')
      | (Inr (Output output), w') \<Rightarrow>
          (scan_ips (''Not assigned'', ''Not assigned'') (split_lines output), w'))"

section \<open>Static addresses: \<open>set_static_ip\<close>\<close>

definition truthy :: "string option \<Rightarrow> bool" where
  "truthy x = (case x of None \<Rightarrow> False | Some s \<Rightarrow> s \<noteq> [])"

definition opt_str :: "string option \<Rightarrow> string" where
  "opt_str x = (case x of None \<Rightarrow> ''None'' | Some s \<Rightarrow> s)"

definition set_static_ip :: "runtime \<Rightarrow> string \<Rightarrow> string option \<Rightarrow> string option \<Rightarrow> world \<Rightarrow> bool \<times> world" where
  "set_static_ip rt name ip4 ip6 w =
     (case (if truthy ip4
            then execute_incus rt
                   (''incus config device set '' @ name @ '' eth0 ipv4.address='' @ opt_str ip4) 300 w
            else (Inr NoOutput, w)) of
        (Inl e, w1) \<Rightarrow> (False, logmsg (StaticIpError name e) w1)
      | (Inr _, w1) \<Rightarrow>
          (case (if truthy ip6
                 then execute_incus rt
                        (''incus config device set '' @ name @ '' eth0 ipv6.address='' @ opt_str ip6) 300 w1
                 else (Inr NoOutput, w1)) of
             (Inl e, w2) \<Rightarrow> (False, logmsg (StaticIpError name e) w2)
           | (Inr _, w2) \<Rightarrow>
               (case execute_incus rt (''incus restart '' @ name) 300 w2 of
                  (Inl e, w3) \<Rightarrow> (False, logmsg (StaticIpError name e) w3)
                | (Inr _, w3) \<Rightarrow> (True, w3))))"

text \<open>
  Lines 305-315 of \<open>slash_create\<close> and 737-747 of \<open>slash_buywc\<close> (the same text in
  both): query the dynamic addresses, apply the requested static ones, fall back to the
  dynamic ones with a warning when that fails.
\<close>

definition assign_ips :: "runtime \<Rightarrow> string \<Rightarrow> string option \<Rightarrow> string option \<Rightarrow> world
    \<Rightarrow> (string \<times> string) \<times> reply list \<times> world" where
  "assign_ips rt name ip4 ip6 w =
     (case get_container_ips rt name w of
        (dyn, w1) \<Rightarrow>
          if truthy ip4 \<or> truthy ip6 then
            (case set_static_ip rt name ip4 ip6 w1 of
               (True, w2) \<Rightarrow>
                 (case get_container_ips rt name w2 of (ips, w3) \<Rightarrow> (ips, [], w3))
             | (False, w2) \<Rightarrow> (dyn, [WarningEmbed ''Static IP Failed''], w2))
          else (dyn, [], w1))"


section \<open>Lifecycle: \<open>slash_create\<close>, \<open>slash_buywc\<close>, \<open>slash_delete_vps\<close>\<close>

definition container_id :: "string \<Rightarrow> nat \<Rightarrow> string" where
  "container_id user_id vps_count = ''vps-'' @ user_id @ ''-'' @ str_nat vps_count"

definition launch_cmd :: "string \<Rightarrow> string \<Rightarrow> string \<Rightarrow> string" where
  "launch_cmd name ram_mb cpus =
     ''incus launch ubuntu:22.04 '' @ name @ '' --config limits.memory='' @ ram_mb
       @ ''MB --config limits.cpu='' @ cpus @ '' -s btrpool''"

text \<open>The records stored under a key of \<open>vps_data\<close> (none when the key is absent).\<close>

definition vps_list_of :: "world \<Rightarrow> string \<Rightarrow> vps list" where
  "vps_list_of w user_id = (case vps_data w user_id of None \<Rightarrow> [] | Some l \<Rightarrow> l)"

text \<open>\<open>if user_id not in vps_data: vps_data[user_id] = []\<close>\<close>

definition ensure_list :: "string \<Rightarrow> world \<Rightarrow> world" where
  "ensure_list user_id w =
     (if vps_data w user_id = None then w\<lparr>vps_data := (vps_data w)(user_id \<mapsto> [])\<rparr> else w)"

text \<open>
  \<open>vps_data[user_id].append(vps_info); save_data()\<close>, followed by the Discord calls
  that close the command (role grant, edit of the response, direct message). \<open>notify\<close> is
  \<open>Some e\<close> when the role grant or the edit raises, which the enclosing \<open>except\<close>
  reports under the title \<open>failed\<close> in place of the success embed. A missing key is the
  \<open>KeyError\<close> of the subscript, caught by the same \<open>except\<close>.
\<close>

definition append_and_save :: "string \<Rightarrow> string \<Rightarrow> string option \<Rightarrow> string \<Rightarrow> vps \<Rightarrow> world \<Rightarrow> reply list \<times> world" where
  "append_and_save ok failed notify user_id vps_info w =
     (case vps_data w user_id of
        None \<Rightarrow> ([ErrorEmbed failed (''Error: '' @ [CHR 0x27] @ user_id @ [CHR 0x27])], w)
      | Some lst \<Rightarrow>
          (let w' = save_data (w\<lparr>vps_data := (vps_data w)(user_id \<mapsto> lst @ [vps_info])\<rparr>) in
           case notify of
             None \<Rightarrow> ([SuccessEmbed ok], w')
           | Some e \<Rightarrow> ([ErrorEmbed failed (''Error: '' @ e)], w')))"

text \<open>
  \<open>slash_create\<close>, the body of the command (the \<open>is_admin\<close> check is the decorator's).
  \<open>now\<close> is \<open>datetime.now().isoformat()\<close>.
\<close>

definition slash_create :: "runtime \<Rightarrow> string \<Rightarrow> string option \<Rightarrow> string \<Rightarrow> int \<Rightarrow> int
    \<Rightarrow> string option \<Rightarrow> string option \<Rightarrow> world \<Rightarrow> reply list \<times> world" where
  "slash_create rt now notify user_id ram_gb cpus ip4 ip6 w =
     (if ram_gb \<le> 0 \<or> cpus \<le> 0 then
        ([ErrorEmbed ''Invalid Specs'' ''RAM and CPU must be positive integers.''], w)
      else
        (let w0 = ensure_list user_id w;
             vps_count = length (vps_list_of w0 user_id) + 1;
             name = container_id user_id vps_count;
             ram_mb = ram_gb * 1024
         in case execute_incus rt (launch_cmd name (str_int ram_mb) (str_int cpus)) 300 w0 of
              (Inl e, w1) \<Rightarrow>
                ([InfoEmbed ''Creating VPS'', ErrorEmbed ''Creation Failed'' (''Error: '' @ e)], w1)
            | (Inr _, w1) \<Rightarrow>
                (case assign_ips rt name ip4 ip6 w1 of
                   ((a4, a6), warn, w2) \<Rightarrow>
                     (case append_and_save ''VPS Created Successfully'' ''Creation Failed'' notify user_id
                             \<lparr>container_name = name, ram = str_int ram_gb @ ''GB'', cpu = str_int cpus,
                              storage = ''10GB'', status = Some ''running'', created_at = Some now,
                              ipv4 = Some a4, ipv6 = Some a6, plan = None, processor = None,
                              shared_with = Some []\<rparr> w2 of
                        (rs, w3) \<Rightarrow> (InfoEmbed ''Creating VPS'' # warn @ rs, w3)))))"

definition prices :: "string \<Rightarrow> string \<Rightarrow> int option" where
  "prices p proc =
     (if p = ''Starter'' then (if proc = ''Intel'' then Some 42 else if proc = ''AMD'' then Some 83 else None)
      else if p = ''Basic'' then (if proc = ''Intel'' then Some 96 else if proc = ''AMD'' then Some 164 else None)
      else if p = ''Standard'' then (if proc = ''Intel'' then Some 192 else if proc = ''AMD'' then Some 320 else None)
      else if p = ''Pro'' then (if proc = ''Intel'' then Some 220 else if proc = ''AMD'' then Some 340 else None)
      else None)"

text \<open>The \<open>plans\<close> table: RAM in GB, CPU cores, storage.\<close>

definition plans :: "string \<Rightarrow> (nat \<times> string \<times> string) option" where
  "plans p =
     (if p = ''Starter'' then Some (4, ''1'', ''10GB'')
      else if p = ''Basic'' then Some (8, ''1'', ''10GB'')
      else if p = ''Standard'' then Some (12, ''2'', ''10GB'')
      else if p = ''Pro'' then Some (16, ''2'', ''10GB'')
      else None)"

text \<open>\<open>if user_id not in user_data: user_data[user_id] = {"credits": 0}\<close>\<close>

definition ensure_account :: "string \<Rightarrow> world \<Rightarrow> world" where
  "ensure_account user_id w =
     (if user_data w user_id = None then w\<lparr>user_data := (user_data w)(user_id \<mapsto> 0)\<rparr> else w)"

definition credits :: "world \<Rightarrow> string \<Rightarrow> int" where
  "credits w user_id = (case user_data w user_id of None \<Rightarrow> 0 | Some c \<Rightarrow> c)"

definition slash_buywc :: "runtime \<Rightarrow> string \<Rightarrow> string option \<Rightarrow> string \<Rightarrow> string \<Rightarrow> string
    \<Rightarrow> string option \<Rightarrow> string option \<Rightarrow> world \<Rightarrow> reply list \<times> world" where
  "slash_buywc rt now notify user_id p proc ip4 ip6 w =
     (case plans p of
        None \<Rightarrow> ([ErrorEmbed ''Invalid Plan'' ''Available: Starter, Basic, Standard, Pro''], w)
      | Some (ram_gb, cpu_str, storage_str) \<Rightarrow>
          (case prices p proc of
             None \<Rightarrow> ([ErrorEmbed ''Invalid Processor'' ''Choose: Intel or AMD''], w)
           | Some cost \<Rightarrow>
               (let wa = ensure_account user_id w in
                if credits wa user_id < cost then
                  ([ErrorEmbed ''Insufficient Credits''
                      (''You need '' @ str_int cost @ '' credits but have '' @ str_int (credits wa user_id))], wa)
                else
                  (let wb = wa\<lparr>user_data := (user_data wa)(user_id \<mapsto> credits wa user_id - cost)\<rparr>;
                       w0 = ensure_list user_id wb;
                       vps_count = length (vps_list_of w0 user_id) + 1;
                       name = container_id user_id vps_count;
                       ram_mb = ram_gb * 1024
                   in case execute_incus rt (launch_cmd name (str_nat ram_mb) cpu_str) 300 w0 of
                        (Inl e, w1) \<Rightarrow>
                          ([InfoEmbed ''Processing Purchase'',
                            ErrorEmbed ''Purchase Failed'' (''Error: '' @ e)], w1)
                      | (Inr _, w1) \<Rightarrow>
                          (case assign_ips rt name ip4 ip6 w1 of
                             ((a4, a6), warn, w2) \<Rightarrow>
                               (case append_and_save ''VPS Purchased Successfully'' ''Purchase Failed''
                                       notify user_id
                                       \<lparr>container_name = name, ram = str_nat ram_gb @ ''GB'', cpu = cpu_str,
                                        storage = storage_str, status = Some ''running'',
                                        created_at = Some now, ipv4 = Some a4, ipv6 = Some a6,
                                        plan = Some p, processor = Some proc, shared_with = Some []\<rparr> w2 of
                                  (rs, w3) \<Rightarrow> (InfoEmbed ''Processing Purchase'' # warn @ rs, w3)))))))"

text \<open>\<open>del lst[i]\<close> for an index in range.\<close>

definition del_at :: "nat \<Rightarrow> 'a list \<Rightarrow> 'a list" where
  "del_at i xs = take i xs @ drop (Suc i) xs"

definition invalid_vps :: "string \<Rightarrow> reply" where
  "invalid_vps why = ErrorEmbed ''Invalid VPS'' why"

text \<open>
  \<open>slash_delete_vps\<close>. \<open>role_err\<close> is \<open>Some e\<close> when the role bookkeeping that follows
  the removal of the owner's last record raises: the \<open>except\<close> then skips \<open>save_data\<close>.
\<close>

definition slash_delete_vps :: "runtime \<Rightarrow> string option \<Rightarrow> string \<Rightarrow> int \<Rightarrow> world \<Rightarrow> reply list \<times> world" where
  "slash_delete_vps rt role_err user_id vps_number w =
     (case vps_data w user_id of
        None \<Rightarrow> ([invalid_vps ''Invalid VPS number or user doesn't have a VPS.''], w)
      | Some lst \<Rightarrow>
          if vps_number < 1 \<or> vps_number > int (length lst) then
            ([invalid_vps ''Invalid VPS number or user doesn't have a VPS.''], w)
          else
            (let i = nat (vps_number - 1);
                 name = container_name (lst ! i)
             in case execute_incus rt (''incus delete '' @ name @ '' --force'') 300 w of
                  (Inl e, w1) \<Rightarrow>
                    ([InfoEmbed ''Deleting VPS'', ErrorEmbed ''Deletion Failed'' (''Error: '' @ e)], w1)
                | (Inr _, w1) \<Rightarrow>
                    (let lst' = del_at i lst in
                     if lst' = [] then
                       (let w2 = w1\<lparr>vps_data := (vps_data w1)(user_id := None)\<rparr> in
                        case role_err of
                          Some e \<Rightarrow>
                            ([InfoEmbed ''Deleting VPS'',
                              ErrorEmbed ''Deletion Failed'' (''Error: '' @ e)], w2)
                        | None \<Rightarrow>
                            ([InfoEmbed ''Deleting VPS'', SuccessEmbed ''VPS Deleted Successfully''],
                             save_data w2))
                     else
                       ([InfoEmbed ''Deleting VPS'', SuccessEmbed ''VPS Deleted Successfully''],
                        save_data (w1\<lparr>vps_data := (vps_data w1)(user_id \<mapsto> lst')\<rparr>)))))"


section \<open>Sharing: \<open>slash_share_user\<close>, \<open>slash_revoke_share\<close>\<close>

definition shared_list :: "vps \<Rightarrow> string list" where
  "shared_list v = (case shared_with v of None \<Rightarrow> [] | Some l \<Rightarrow> l)"


definition slash_revoke_share :: "string \<Rightarrow> string \<Rightarrow> int \<Rightarrow> world \<Rightarrow> reply list \<times> world" where
  "slash_revoke_share user_id shared_user_id vps_number w =
     (case vps_data w user_id of
        None \<Rightarrow> ([invalid_vps ''Invalid VPS number or you don't have a VPS.''], w)
      | Some lst \<Rightarrow>
          if vps_number < 1 \<or> vps_number > int (length lst) then
            ([invalid_vps ''Invalid VPS number or you don't have a VPS.''], w)
          else
            (let i = nat (vps_number - 1);
                 v = (lst ! i)\<lparr>shared_with := Some (shared_list (lst ! i))\<rparr>
             in if shared_user_id \<notin> set (shared_list v) then
                  ([ErrorEmbed ''Not Shared'' (mention shared_user_id @ '' doesn't have access!'')],
                   w\<lparr>vps_data := (vps_data w)(user_id \<mapsto> lst[i := v])\<rparr>)
                else
                  ([SuccessEmbed ''Access Revoked''],
                   save_data (w\<lparr>vps_data := (vps_data w)(user_id \<mapsto>
                      lst[i := v\<lparr>shared_with := Some (remove1 shared_user_id (shared_list v))\<rparr>])\<rparr>))))"

section \<open>Credits: \<open>slash_admin_credits\<close>, \<open>slash_admin_remove_credits\<close>, \<open>slash_credits\<close>\<close>

definition set_credits :: "string \<Rightarrow> int \<Rightarrow> world \<Rightarrow> world" where
  "set_credits user_id c w = w\<lparr>user_data := (user_data w)(user_id \<mapsto> c)\<rparr>"

definition slash_admin_credits :: "string \<Rightarrow> int \<Rightarrow> world \<Rightarrow> reply list \<times> world" where
  "slash_admin_credits user_id amount w =
     (if amount \<le> 0 then
        ([ErrorEmbed ''Invalid Amount'' ''Amount must be a positive integer.''], w)
      else
        (let wa = ensure_account user_id w in
         ([SuccessEmbed ''Credits Added''],
          save_data (set_credits user_id (credits wa user_id + amount) wa))))"

definition slash_admin_remove_credits :: "string \<Rightarrow> string \<Rightarrow> world \<Rightarrow> reply list \<times> world" where
  "slash_admin_remove_credits user_id amount_or_all w =
     (let wa = ensure_account user_id w;
          current_credits = credits wa user_id
      in if lower amount_or_all = ''all'' then
           ([SuccessEmbed ''Credits Removed''], save_data (set_credits user_id 0 wa))
         else
           (case py_int amount_or_all of
              None \<Rightarrow> ([ErrorEmbed ''Invalid Amount'' (''Enter number or 'all'' @ [CHR 0x27])], wa)
            | Some amount \<Rightarrow>
                if amount \<le> 0 then
                  ([ErrorEmbed ''Invalid Amount'' (''Use positive number or 'all'' @ [CHR 0x27])], wa)
                else
                  (let amount' = (if amount > current_credits then current_credits else amount) in
                   ([SuccessEmbed ''Credits Removed''],
                    save_data (set_credits user_id (credits wa user_id - amount') wa)))))"

definition slash_credits :: "string \<Rightarrow> world \<Rightarrow> reply list \<times> world" where
  "slash_credits user_id w =
     (if user_data w user_id = None then ([InfoEmbed ''Credit Balance''], save_data (set_credits user_id 0 w))
      else ([InfoEmbed ''Credit Balance''], w))"


section \<open>The management view: \<open>ManageView.action_callback\<close>, \<open>ConfirmView.confirm\<close>\<close>

text \<open>
  The names bound at the top level of \<open>v2.py\<close>: its imports, its global variables,
  its functions and its class, in the order of the file. The module has no star import
  and never writes to its namespace by other means.
\<close>

definition module_names :: "string list" where
  "module_names =
     [''discord'', ''commands'', ''asyncio'', ''subprocess'', ''json'', ''datetime'', ''shlex'',
      ''logging'', ''shutil'', ''os'', ''Optional'', ''List'', ''Dict'', ''Any'', ''threading'',
      ''time'', ''re'', ''app_commands'',
      ''logger'', ''intents'', ''bot'', ''to'', ''MAIN_ADMIN_ID'', ''VPS_USER_ROLE_ID'',
      ''CPU_THRESHOLD'', ''CHECK_INTERVAL'', ''cpu_monitor_active'', ''HOST_IPV4'',
      ''HOST_IPV6_LINKLOCAL'',
      ''load_data'', ''load_vps_data'', ''load_admin_data'', ''user_data'', ''vps_data'',
      ''admin_data'', ''save_data'', ''is_admin'', ''is_main_admin'', ''create_embed'',
      ''create_success_embed'', ''create_error_embed'', ''create_info_embed'',
      ''create_warning_embed'', ''execute_incus'', ''get_container_ips'', ''set_static_ip'',
      ''get_or_create_vps_role'', ''get_cpu_usage'', ''cpu_monitor'', ''cpu_thread'',
      ''on_ready'', ''on_app_command_error'', ''on_command_error'', ''slash_create'',
      ''ManageView'', ''manage_vps'', ''slash_list_all'', ''slash_manage_shared'',
      ''slash_share_user'', ''slash_revoke_share'', ''slash_buywc'', ''slash_buyc'',
      ''slash_delete_vps'', ''slash_plans'', ''slash_admin_credits'',
      ''slash_admin_remove_credits'', ''slash_admin_add'', ''slash_admin_remove'',
      ''slash_admin_list'', ''slash_credits'', ''slash_user_info'', ''slash_server_stats'',
      ''slash_vps_info'', ''slash_restart_vps'', ''slash_backup_vps'', ''slash_restore_vps'',
      ''slash_list_snapshots'', ''slash_execute'', ''slash_stop_all_vps'', ''slash_cpu_monitor'',
      ''slash_set_ip'', ''slash_help'', ''legacy_create'']"

text \<open>
  \<open>await f(command, timeout=t)\<close> for a global name \<open>f\<close>. A name that the module
  does not bind (and that is no builtin) raises \<open>NameError\<close> when the call is
  evaluated, before any argument is built and before any process is started. Of the bound
  names only \<open>execute_incus\<close> is a process runner; calling another one this way is a
  \<open>TypeError\<close>.
\<close>

definition name_error :: "string \<Rightarrow> string" where
  "name_error f = ''name '' @ [CHR 0x27] @ f @ [CHR 0x27] @ '' is not defined''"

definition call_global :: "string \<Rightarrow> runtime \<Rightarrow> string \<Rightarrow> nat \<Rightarrow> world \<Rightarrow> (string + run_value) \<times> world" where
  "call_global f rt command timeout w =
     (if f \<notin> set module_names then (Inl (name_error f), w)
      else if f = ''execute_incus'' then execute_incus rt command timeout w
      else (Inl ''TypeError'', w))"

text \<open>
  A view keeps the identity of the user it was opened for, the owner whose list it
  shows, the selected position and two flags. Its \<open>vps_list\<close> is the owner's list
  object of \<open>vps_data\<close> (for a shared view the source itself goes through
  \<open>vps_data[owner_id]\<close>), so the model reads and writes the selected record through
  \<open>vps_data\<close>.
\<close>

record manage_view =
  mv_user_id :: string
  mv_owner_id :: string
  selected_index :: "nat option"
  is_shared :: bool
  is_admin :: bool

datatype action = Reinstall | Start | Stop

definition view_vps :: "manage_view \<Rightarrow> world \<Rightarrow> vps option" where
  "view_vps view w =
     (case selected_index view of
        None \<Rightarrow> None
      | Some i \<Rightarrow>
          (case vps_data w (mv_owner_id view) of
             None \<Rightarrow> None
           | Some lst \<Rightarrow> if i < length lst then Some (lst ! i) else None))"

definition update_vps :: "string \<Rightarrow> nat \<Rightarrow> (vps \<Rightarrow> vps) \<Rightarrow> world \<Rightarrow> world" where
  "update_vps owner i f w =
     (case vps_data w owner of
        None \<Rightarrow> w
      | Some lst \<Rightarrow>
          if i < length lst then w\<lparr>vps_data := (vps_data w)(owner \<mapsto> lst[i := f (lst ! i)])\<rparr> else w)"

definition view_index :: "manage_view \<Rightarrow> nat" where
  "view_index view = (case selected_index view of None \<Rightarrow> 0 | Some i \<Rightarrow> i)"

text \<open>
  \<open>action_callback\<close> for the buttons Reinstall, Start and Stop. An empty reply list
  with the state unchanged is the exception of the record subscript leaving the callback.
\<close>

definition action_callback :: "runtime \<Rightarrow> manage_view \<Rightarrow> string \<Rightarrow> action \<Rightarrow> world \<Rightarrow> reply list \<times> world" where
  "action_callback rt view caller act w =
     (if caller \<noteq> mv_user_id view \<and> \<not> is_admin view then
        ([ErrorEmbed ''Access Denied'' ''This is not your VPS!''], w)
      else
        (case view_vps view w of
           None \<Rightarrow> ([], w)
         | Some v \<Rightarrow>
             (case act of
                Reinstall \<Rightarrow>
                  if is_shared view \<or> is_admin view then
                    ([ErrorEmbed ''Access Denied'' ''Only the VPS owner can reinstall!''], w)
                  else ([WarningEmbed ''Reinstall Warning''], w)
              | Start \<Rightarrow>
                  (case call_global ''execute_lxc'' rt (''incus start '' @ container_name v) 300 w of
                     (Inl e, w1) \<Rightarrow> ([ErrorEmbed ''Start Failed'' e], w1)
                   | (Inr _, w1) \<Rightarrow>
                       ([SuccessEmbed ''VPS Started''],
                        save_data (update_vps (mv_owner_id view) (view_index view)
                                     (\<lambda>r. r\<lparr>status := Some ''running''\<rparr>) w1)))
              | Stop \<Rightarrow>
                  (case call_global ''execute_lxc'' rt (''incus stop '' @ container_name v) 120 w of
                     (Inl e, w1) \<Rightarrow> ([ErrorEmbed ''Stop Failed'' e], w1)
                   | (Inr _, w1) \<Rightarrow>
                       ([SuccessEmbed ''VPS Stopped''],
                        save_data (update_vps (mv_owner_id view) (view_index view)
                                     (\<lambda>r. r\<lparr>status := Some ''stopped''\<rparr>) w1))))))"

text \<open>\<open>s.replace(pat, "")\<close>\<close>

fun remove_all :: "string \<Rightarrow> string \<Rightarrow> string" where
  "remove_all pat [] = []"
| "remove_all pat (c # cs) =
     (if pat \<noteq> [] \<and> prefix pat (c # cs) then remove_all pat (drop (length pat - 1) cs)
      else c # remove_all pat cs)"

text \<open>
  The confirmation view of a reinstall holds the container name, the record and its
  place, all taken when the warning was shown. \<open>confirm\<close> is its Confirm button.
\<close>

record confirm_view =
  cv_container_name :: string
  cv_vps :: vps
  cv_owner_id :: string
  cv_selected_index :: nat

definition confirm :: "runtime \<Rightarrow> string \<Rightarrow> confirm_view \<Rightarrow> world \<Rightarrow> reply list \<times> world" where
  "confirm rt now cv w =
     (case call_global ''execute_lxc'' rt
             (''incus delete '' @ cv_container_name cv @ '' --force'') 300 w of
        (Inl e, w1) \<Rightarrow>
          ([InfoEmbed ''Deleting Container'', ErrorEmbed ''Reinstall Failed'' (''Error: '' @ e)], w1)
      | (Inr _, w1) \<Rightarrow>
          (case py_int (remove_all ''GB'' (ram (cv_vps cv))) of
             None \<Rightarrow>
               ([InfoEmbed ''Deleting Container'', InfoEmbed ''Recreating Container'',
                 ErrorEmbed ''Reinstall Failed''
                   (''Error: invalid literal for int() with base 10: '' @ [CHR 0x27]
                      @ remove_all ''GB'' (ram (cv_vps cv)) @ [CHR 0x27])], w1)
           | Some ram_gb \<Rightarrow>
               (case call_global ''execute_lxc'' rt
                       (''incus launch images:ubuntu/22.04 '' @ cv_container_name cv
                          @ '' --config limits.memory='' @ str_int (ram_gb * 1024)
                          @ ''MB --config limits.cpu='' @ cpu (cv_vps cv) @ '' -s btrpool'') 300 w1 of
                  (Inl e, w2) \<Rightarrow>
                    ([InfoEmbed ''Deleting Container'', InfoEmbed ''Recreating Container'',
                      ErrorEmbed ''Reinstall Failed'' (''Error: '' @ e)], w2)
                | (Inr _, w2) \<Rightarrow>
                    ([InfoEmbed ''Deleting Container'', InfoEmbed ''Recreating Container'',
                      SuccessEmbed ''Reinstall Complete''],
                     save_data (update_vps (cv_owner_id cv) (cv_selected_index cv)
                                  (\<lambda>r. r\<lparr>status := Some ''running'', created_at := Some now\<rparr>) w2)))))"

section \<open>Admission Monitor: \<open>cpu_monitor\<close>, \<open>slash_cpu_monitor\<close>\<close>

definition CPU_THRESHOLD :: real where
  "CPU_THRESHOLD = 90"

definition CHECK_INTERVAL :: nat where
  "CHECK_INTERVAL = 60"

definition stop_all_cmd :: string where
  "stop_all_cmd = ''incus stop --all --force''"

definition mark_stopped :: "vps \<Rightarrow> vps" where
  "mark_stopped v = (if status v = Some ''running'' then v\<lparr>status := Some ''stopped''\<rparr> else v)"

definition stop_records :: "world \<Rightarrow> world" where
  "stop_records w = w\<lparr>vps_data := (\<lambda>u. map_option (map mark_stopped) (vps_data w u))\<rparr>"

text \<open>
  One pass through the body of the \<open>while\<close> loop, up to the \<open>time.sleep\<close>.
  \<open>cpu_usage\<close> is the value \<open>get_cpu_usage()\<close> returned, \<open>stop_ok\<close> tells whether
  \<open>subprocess.run(['incus', 'stop', '--all', '--force'], check=True)\<close> returned
  without raising.
\<close>

definition cpu_monitor_body :: "real \<Rightarrow> bool \<Rightarrow> world \<Rightarrow> world" where
  "cpu_monitor_body cpu_usage stop_ok w =
     (let w1 = logmsg (CpuUsage cpu_usage) w in
      if cpu_usage > CPU_THRESHOLD then
        (let w2 = logmsg (CpuExceeded cpu_usage) w1;
             w3 = w2\<lparr>calls := calls w2 @ [stop_all_cmd]\<rparr>
         in if stop_ok then save_data (stop_records (logmsg AllStopped w3))
            else logmsg StopAllError w3)
      else w1)"

text \<open>
  The thread wakes at the head of \<open>while cpu_monitor_active\<close>: a thread that has
  returned from \<open>cpu_monitor\<close> does nothing (nothing in the module starts another one);
  a live thread that reads the flag false leaves the loop and returns; otherwise the
  body runs once and the thread sleeps for \<open>CHECK_INTERVAL\<close> seconds.
\<close>

definition cpu_monitor_wake :: "real \<Rightarrow> bool \<Rightarrow> world \<Rightarrow> world" where
  "cpu_monitor_wake cpu_usage stop_ok w =
     (if \<not> cpu_thread_alive w then w
      else if \<not> cpu_monitor_active w then w\<lparr>cpu_thread_alive := False\<rparr>
      else cpu_monitor_body cpu_usage stop_ok w)"

text \<open>The loop running undisturbed over a sequence of samples, one per interval.\<close>

fun cpu_monitor :: "(real \<times> bool) list \<Rightarrow> world \<Rightarrow> world" where
  "cpu_monitor [] w = w"
| "cpu_monitor ((cpu_usage, stop_ok) # rest) w = cpu_monitor rest (cpu_monitor_wake cpu_usage stop_ok w)"

definition slash_cpu_monitor :: "string \<Rightarrow> world \<Rightarrow> reply list \<times> world" where
  "slash_cpu_monitor act w =
     (if lower act = ''status'' then ([InfoEmbed ''CPU Monitor Status''], w)
      else if lower act = ''enable'' then
        ([SuccessEmbed ''CPU Monitor Enabled''], w\<lparr>cpu_monitor_active := True\<rparr>)
      else if lower act = ''disable'' then
        ([WarningEmbed ''CPU Monitor Disabled''], w\<lparr>cpu_monitor_active := False\<rparr>)
      else ([ErrorEmbed ''Invalid Action'' ''Use: `/cpu-monitor <status|enable|disable>`''], w))"

text \<open>
  The monitor thread and the operator's commands interleaved: the thread reads the flag
  only when it wakes, a command runs between two wake-ups.
\<close>

datatype event = Wake real bool | Command string

fun run_events :: "event list \<Rightarrow> world \<Rightarrow> world" where
  "run_events [] w = w"
| "run_events (Wake cpu_usage stop_ok # es) w = run_events es (cpu_monitor_wake cpu_usage stop_ok w)"
| "run_events (Command act # es) w = run_events es (snd (slash_cpu_monitor act w))"

text \<open>The number of samples taken and of fleet-wide stops issued so far.\<close>

definition samples_taken :: "world \<Rightarrow> nat" where
  "samples_taken w = length (filter (\<lambda>e. case e of CpuUsage _ \<Rightarrow> True | _ \<Rightarrow> False) (logs w))"

definition stops_issued :: "world \<Rightarrow> nat" where
  "stops_issued w = count_list (calls w) stop_all_cmd"

section \<open>Record Store: \<open>load_vps_data\<close>\<close>

text \<open>
  The value \<open>json.load\<close> returns. A dictionary is the list of its items in insertion
  order. \<open>NotFound\<close> and \<open>Corrupt\<close> are the two exceptions the loader catches.
\<close>

datatype json =
    JNull
  | JBool bool
  | JInt int
  | JFloat real
  | JStr string
  | JList "json list"
  | JDict "(string \<times> json) list"

datatype file_read = NotFound | Corrupt | Parsed json

text \<open>The body of the \<open>for uid, v in loaded.items()\<close> loop.\<close>

fun load_entry :: "(string \<rightharpoonup> json list) \<times> log_entry list \<Rightarrow> string \<times> json
    \<Rightarrow> (string \<rightharpoonup> json list) \<times> log_entry list" where
  "load_entry (m, lg) (uid, JDict d) =
     (if ''container_name'' \<in> set (map fst d) then (m(uid \<mapsto> [JDict d]), lg)
      else (m(uid \<mapsto> map snd d), lg))"
| "load_entry (m, lg) (uid, JList l) = (m(uid \<mapsto> l), lg)"
| "load_entry (m, lg) (uid, v) = (m, lg @ [UnknownFormat uid])"

text \<open>
  \<open>Inl\<close> is the uncaught \<open>AttributeError\<close> of \<open>loaded.items()\<close> on a document that is not
  a dictionary; \<open>Inr\<close> is the returned inventory with the warnings logged on the way.
\<close>

definition load_vps_data :: "file_read \<Rightarrow> string + ((string \<rightharpoonup> json list) \<times> log_entry list)" where
  "load_vps_data f =
     (case f of
        NotFound \<Rightarrow> Inr (Map.empty, [DataFileMissing])
      | Corrupt \<Rightarrow> Inr (Map.empty, [DataFileMissing])
      | Parsed (JDict items) \<Rightarrow> Inr (foldl load_entry (Map.empty, []) items)
      | Parsed _ \<Rightarrow> Inl (''object has no attribute 'items'' @ [CHR 0x27]))"


section \<open>Concrete states and runtimes\<close>

text \<open>
  The state after the module is imported with none of the three files present: empty
  dictionaries, the main administrator as the only admin, the monitor flag set and the
  monitor thread started.
\<close>

definition MAIN_ADMIN_ID :: string where
  "MAIN_ADMIN_ID = ''1405866008127864852''"

definition initial_world :: world where
  "initial_world =
     \<lparr>user_data = Map.empty, vps_data = Map.empty, admin_data = [MAIN_ADMIN_ID],
      disk_user_data = Map.empty, disk_vps_data = Map.empty, disk_admin_data = [],
      calls = [], logs = [], cpu_monitor_active = True, cpu_thread_alive = True\<rparr>"

text \<open>A runtime on which every command exits with code 0 and prints nothing.\<close>

definition runtime_ok :: runtime where
  "runtime_ok n command = Exited 0 [] []"

text \<open>A runtime that refuses its \<open>k\<close>-th command (counted from 0) and accepts the others.\<close>

definition runtime_refusing :: "nat \<Rightarrow> runtime" where
  "runtime_refusing k n command =
     (if n = k then Exited 1 [] ''Error: Instance already exists'' else Exited 0 [] [])"




text \<open>
  Tenant 7 is given two servers, the first one is deleted: the inventory of tenant 7 is
  then the single record \<open>vps-7-2\<close>. Seven command lines have been issued by then
  on \<open>runtime_ok\<close>, five by the time the deletion is over.
\<close>

definition two_created_first_deleted :: "runtime \<Rightarrow> world" where
  "two_created_first_deleted rt =
     snd (slash_delete_vps rt None ''7'' 1
       (snd (slash_create rt ''t2'' None ''7'' 2 1 None None
         (snd (slash_create rt ''t1'' None ''7'' 2 1 None None initial_world)))))"


text \<open>Tenant 7 is given one server.\<close>

definition one_created :: world where
  "one_created = snd (slash_create runtime_ok ''t1'' None ''7'' 2 1 None None initial_world)"


text \<open>The view that tenant 7 opens on the first record of their own list.\<close>

definition own_view :: manage_view where
  "own_view =
     \<lparr>mv_user_id = ''7'', mv_owner_id = ''7'', selected_index = Some 0,
      is_shared = False, is_admin = False\<rparr>"

text \<open>Tenant 7 has been granted 100 credits.\<close>

definition funded_world :: world where
  "funded_world = snd (slash_admin_credits ''7'' 100 initial_world)"

text \<open>A stored record as the loader meets it: a dictionary with the key \<open>container_name\<close>.\<close>

definition example_record :: json where
  "example_record = JDict [(''container_name'', JStr ''vps-42-1''), (''status'', JStr ''running'')]"

section \<open>Properties of the state\<close>

text \<open>No balance of the ledger is negative.\<close>

definition credits_nonneg :: "world \<Rightarrow> bool" where
  "credits_nonneg w = (\<forall>u c. user_data w u = Some c \<longrightarrow> 0 \<le> c)"

text \<open>
  The commands that write to the ledger, and a run of any number of them. \<open>Purchase\<close>
  carries the arguments of \<open>slash_buywc\<close> after the runtime.
\<close>

datatype credit_op =
    AdminCredits string int
  | Purchase string "string option" string string string "string option" "string option"
  | AdminRemoveCredits string string
  | Credits string

fun apply_credit_op :: "runtime \<Rightarrow> credit_op \<Rightarrow> world \<Rightarrow> world" where
  "apply_credit_op rt (AdminCredits u amount) w = snd (slash_admin_credits u amount w)"
| "apply_credit_op rt (Purchase now notify u p proc ip4 ip6) w =
     snd (slash_buywc rt now notify u p proc ip4 ip6 w)"
| "apply_credit_op rt (AdminRemoveCredits u amount_or_all) w =
     snd (slash_admin_remove_credits u amount_or_all w)"
| "apply_credit_op rt (Credits u) w = snd (slash_credits u w)"

fun run_credit_ops :: "runtime \<Rightarrow> credit_op list \<Rightarrow> world \<Rightarrow> world" where
  "run_credit_ops rt [] w = w"
| "run_credit_ops rt (op # ops) w = run_credit_ops rt ops (apply_credit_op rt op w)"


text \<open>What the loader returns for one tenant, and the warnings it logs.\<close>

definition loaded_inventory :: "file_read \<Rightarrow> string \<Rightarrow> json list option" where
  "loaded_inventory f uid = (case load_vps_data f of Inl _ \<Rightarrow> None | Inr (m, lg) \<Rightarrow> m uid)"

definition loaded_warnings :: "file_read \<Rightarrow> log_entry list" where
  "loaded_warnings f = (case load_vps_data f of Inl _ \<Rightarrow> [] | Inr (m, lg) \<Rightarrow> lg)"

text \<open>A per-tenant value that is neither a dictionary nor a list.\<close>

fun unknown_shape :: "json \<Rightarrow> bool" where
  "unknown_shape (JDict d) = False"
| "unknown_shape (JList l) = False"
| "unknown_shape v = True"


section \<open>Process Runner: failure classification\<close>

lemmas string_eval = decoded_def decode_def strip_def ws_len_def ws_len_end_def byte_def
  is_cont_def











section \<open>What the runtime calls leave alone\<close>

lemma execute_incus_keeps:
  "execute_incus rt c t w = (r, w') \<Longrightarrow>
     vps_data w' = vps_data w \<and> user_data w' = user_data w \<and> admin_data w' = admin_data w
     \<and> disk_vps_data w' = disk_vps_data w \<and> disk_user_data w' = disk_user_data w
     \<and> disk_admin_data w' = disk_admin_data w
     \<and> cpu_monitor_active w' = cpu_monitor_active w \<and> cpu_thread_alive w' = cpu_thread_alive w"
  by (auto simp: execute_incus_def split: prod.splits)

lemma get_container_ips_keeps:
  "get_container_ips rt n w = (r, w') \<Longrightarrow>
     vps_data w' = vps_data w \<and> user_data w' = user_data w \<and> admin_data w' = admin_data w
     \<and> disk_vps_data w' = disk_vps_data w \<and> disk_user_data w' = disk_user_data w
     \<and> disk_admin_data w' = disk_admin_data w"
  by (auto simp: get_container_ips_def logmsg_def split: prod.splits sum.splits run_value.splits
      dest!: execute_incus_keeps)

lemma set_static_ip_keeps:
  "set_static_ip rt n a b w = (r, w') \<Longrightarrow>
     vps_data w' = vps_data w \<and> user_data w' = user_data w \<and> admin_data w' = admin_data w
     \<and> disk_vps_data w' = disk_vps_data w \<and> disk_user_data w' = disk_user_data w
     \<and> disk_admin_data w' = disk_admin_data w"
  by (auto simp: set_static_ip_def logmsg_def split: prod.splits sum.splits if_splits
      dest!: execute_incus_keeps)

lemma assign_ips_keeps:
  "assign_ips rt n a b w = (r, warn, w') \<Longrightarrow>
     vps_data w' = vps_data w \<and> user_data w' = user_data w \<and> admin_data w' = admin_data w
     \<and> disk_vps_data w' = disk_vps_data w \<and> disk_user_data w' = disk_user_data w
     \<and> disk_admin_data w' = disk_admin_data w"
  by (auto simp: assign_ips_def split: prod.splits if_splits bool.splits
      dest!: get_container_ips_keeps set_static_ip_keeps)

section \<open>The state with one server\<close>

lemma one_created_eval:
  "vps_data one_created =
     [''7'' \<mapsto> [\<lparr>container_name = ''vps-7-1'', ram = ''2GB'', cpu = ''1'', storage = ''10GB'',
        status = Some ''running'', created_at = Some ''t1'', ipv4 = Some ''Error'',
        ipv6 = Some ''Error'', plan = None, processor = None, shared_with = Some []\<rparr>]]"
  by (simp add: one_created_def slash_create_def initial_world_def runtime_ok_def ensure_list_def
      vps_list_of_def container_id_def str_nat.simps digit_char_def launch_cmd_def execute_incus_def
      run_result_def string_eval str_int_def assign_ips_def get_container_ips_def truthy_def logmsg_def
      append_and_save_def save_data_def Let_def)

lemma one_created_flags:
  "cpu_thread_alive one_created" "cpu_monitor_active one_created"
  by (simp_all add: one_created_def slash_create_def initial_world_def runtime_ok_def ensure_list_def
      vps_list_of_def container_id_def str_nat.simps digit_char_def launch_cmd_def execute_incus_def
      run_result_def string_eval str_int_def assign_ips_def get_container_ips_def truthy_def logmsg_def
      append_and_save_def save_data_def Let_def)

section \<open>Admission Monitor\<close>

text \<open>
  C1, as claimed, fails. On the samples 50, 95, 95, 40 the loop has issued one fleet-wide
  stop after the second sample, two after the third and two at the end: the second 95,
  which follows no sample below the threshold, triggers a stop of its own. And a sample
  of exactly 90 triggers none: on the samples 50, 90 no stop is issued.
\<close>

theorem monitor_fires_twice_on_50_95_95_40:
  "stops_issued (cpu_monitor [(50, True), (95, True)] initial_world) = 1
   \<and> stops_issued (cpu_monitor [(50, True), (95, True), (95, True)] initial_world) = 2
   \<and> stops_issued (cpu_monitor [(50, True), (95, True), (95, True), (40, True)] initial_world) = 2
   \<and> stops_issued (cpu_monitor [(50, True), (90, True)] initial_world) = 0"
  by (simp add: stops_issued_def cpu_monitor_wake_def cpu_monitor_body_def initial_world_def
      CPU_THRESHOLD_def logmsg_def save_data_def stop_records_def Let_def)

lemma wake_flags:
  "cpu_thread_alive w \<Longrightarrow> cpu_monitor_active w \<Longrightarrow>
     cpu_thread_alive (cpu_monitor_wake u ok w) \<and> cpu_monitor_active (cpu_monitor_wake u ok w)"
  by (simp add: cpu_monitor_wake_def cpu_monitor_body_def logmsg_def save_data_def
      stop_records_def Let_def)

lemma wake_stops:
  "cpu_thread_alive w \<Longrightarrow> cpu_monitor_active w \<Longrightarrow>
     stops_issued (cpu_monitor_wake u ok w) = stops_issued w + (if u > CPU_THRESHOLD then 1 else 0)"
  by (simp add: stops_issued_def cpu_monitor_wake_def cpu_monitor_body_def logmsg_def save_data_def
      stop_records_def Let_def)

lemma wake_flip:
  "cpu_thread_alive w \<Longrightarrow> cpu_monitor_active w \<Longrightarrow> hi > CPU_THRESHOLD \<Longrightarrow>
     vps_data (cpu_monitor_wake hi True w) = (\<lambda>u. map_option (map mark_stopped) (vps_data w u))
     \<and> disk_vps_data (cpu_monitor_wake hi True w)
          = (\<lambda>u. map_option (map mark_stopped) (vps_data w u))
     \<and> vps_data (cpu_monitor_wake hi False w) = vps_data w
     \<and> disk_vps_data (cpu_monitor_wake hi False w) = disk_vps_data w"
  by (simp add: cpu_monitor_wake_def cpu_monitor_body_def logmsg_def save_data_def
      stop_records_def Let_def)

lemma wake_below:
  "cpu_thread_alive w \<Longrightarrow> cpu_monitor_active w \<Longrightarrow> \<not> lo > CPU_THRESHOLD \<Longrightarrow>
     cpu_monitor_wake lo ok w = logmsg (CpuUsage lo) w"
  by (simp add: cpu_monitor_wake_def cpu_monitor_body_def Let_def)

lemma mark_stopped_not_running: "status (mark_stopped v) \<noteq> Some ''running''"
  by (simp add: mark_stopped_def)

lemma wake_keeps_none_running:
  assumes "\<forall>u lst v. vps_data w u = Some lst \<longrightarrow> v \<in> set lst \<longrightarrow> status v \<noteq> Some ''running''"
  shows "\<forall>u lst v. vps_data (cpu_monitor_wake x ok w) u = Some lst \<longrightarrow> v \<in> set lst
           \<longrightarrow> status v \<noteq> Some ''running''"
  using assms mark_stopped_not_running
  by (auto simp: cpu_monitor_wake_def cpu_monitor_body_def logmsg_def save_data_def
      stop_records_def Let_def)

lemma run_keeps_none_running:
  "\<forall>u lst v. vps_data w u = Some lst \<longrightarrow> v \<in> set lst \<longrightarrow> status v \<noteq> Some ''running'' \<Longrightarrow>
   \<forall>u lst v. vps_data (cpu_monitor samples w) u = Some lst \<longrightarrow> v \<in> set lst
           \<longrightarrow> status v \<noteq> Some ''running''"
proof (induction samples arbitrary: w)
  case Nil
  then show ?case by simp
next
  case (Cons s rest)
  obtain x ok where s: "s = (x, ok)" by (cases s)
  show ?case
    using Cons.IH [OF wake_keeps_none_running [OF Cons.prems, of x ok]] by (simp add: s)
qed

lemma wake_flip_none_running:
  assumes "cpu_thread_alive w" "cpu_monitor_active w" "hi > CPU_THRESHOLD"
  shows "\<forall>u lst v. vps_data (cpu_monitor_wake hi True w) u = Some lst \<longrightarrow> v \<in> set lst
           \<longrightarrow> status v \<noteq> Some ''running''"
  using wake_flip [OF assms] mark_stopped_not_running by auto

lemma run_with_successful_stop:
  "cpu_thread_alive w \<Longrightarrow> cpu_monitor_active w \<Longrightarrow>
   \<exists>s \<in> set samples. fst s > CPU_THRESHOLD \<and> snd s \<Longrightarrow>
   \<forall>u lst v. vps_data (cpu_monitor samples w) u = Some lst \<longrightarrow> v \<in> set lst
           \<longrightarrow> status v \<noteq> Some ''running''"
proof (induction samples arbitrary: w)
  case Nil
  then show ?case by simp
next
  case (Cons s rest)
  obtain x ok where s: "s = (x, ok)" by (cases s)
  have f: "cpu_thread_alive (cpu_monitor_wake x ok w)" "cpu_monitor_active (cpu_monitor_wake x ok w)"
    using wake_flags [OF Cons.prems(1,2)] by blast+
  show ?case
  proof (cases "x > CPU_THRESHOLD \<and> ok")
    case True
    then have "\<forall>u lst v. vps_data (cpu_monitor_wake x ok w) u = Some lst \<longrightarrow> v \<in> set lst
           \<longrightarrow> status v \<noteq> Some ''running''"
      using wake_flip_none_running [OF Cons.prems(1,2), of x] by simp
    from run_keeps_none_running [OF this] show ?thesis by (simp add: s)
  next
    case False
    with Cons.prems(3) s have "\<exists>s \<in> set rest. fst s > CPU_THRESHOLD \<and> snd s" by auto
    from Cons.IH [OF f this] show ?thesis by (simp add: s)
  qed
qed

text \<open>
  C1, amended. The monitor is level-triggered. While it runs enabled, it issues the
  fleet-wide stop once for every sample strictly above \<open>CPU_THRESHOLD\<close> (90), whatever
  the samples before were, and for no other sample: a sample at or below the threshold
  only logs the usage. When the stop command succeeds, every record whose status is
  \<open>running\<close> is set to \<open>stopped\<close>, nothing else in the inventory changes, and the
  inventory is saved; when the stop command fails, the records and the saved inventory
  stay as they were. So after a run in which some stop succeeded no record is \<open>running\<close>.
\<close>

theorem monitor_stops_on_every_sample_above_threshold:
  assumes live: "cpu_thread_alive w" "cpu_monitor_active w"
  shows
   "stops_issued (cpu_monitor samples w)
       = stops_issued w + length (filter (\<lambda>s. fst s > CPU_THRESHOLD) samples)
    \<and> (hi > CPU_THRESHOLD \<longrightarrow>
          stops_issued (cpu_monitor_wake hi ok w) = stops_issued w + 1
          \<and> vps_data (cpu_monitor_wake hi True w)
               = (\<lambda>u. map_option (map mark_stopped) (vps_data w u))
          \<and> disk_vps_data (cpu_monitor_wake hi True w)
               = (\<lambda>u. map_option (map mark_stopped) (vps_data w u))
          \<and> vps_data (cpu_monitor_wake hi False w) = vps_data w
          \<and> disk_vps_data (cpu_monitor_wake hi False w) = disk_vps_data w)
    \<and> (\<not> lo > CPU_THRESHOLD \<longrightarrow> cpu_monitor_wake lo ok w = logmsg (CpuUsage lo) w)
    \<and> ((\<exists>s \<in> set samples. fst s > CPU_THRESHOLD \<and> snd s) \<longrightarrow>
          (\<forall>u lst v. vps_data (cpu_monitor samples w) u = Some lst \<longrightarrow> v \<in> set lst
             \<longrightarrow> status v \<noteq> Some ''running''))"
proof (intro conjI impI)
  show "stops_issued (cpu_monitor samples w)
       = stops_issued w + length (filter (\<lambda>s. fst s > CPU_THRESHOLD) samples)"
    using live
  proof (induction samples arbitrary: w)
    case Nil
    then show ?case by simp
  next
    case (Cons s rest)
    obtain u ok where s: "s = (u, ok)" by (cases s)
    from Cons.prems have f: "cpu_thread_alive (cpu_monitor_wake u ok w)"
        "cpu_monitor_active (cpu_monitor_wake u ok w)"
      using wake_flags by blast+
    show ?case
      using Cons.IH [OF f] wake_stops [OF Cons.prems, of u ok] by (simp add: s)
  qed
  { assume hi: "hi > CPU_THRESHOLD"
    show "stops_issued (cpu_monitor_wake hi ok w) = stops_issued w + 1"
      using wake_stops [OF live, of hi ok] hi by simp
    show "vps_data (cpu_monitor_wake hi True w) = (\<lambda>u. map_option (map mark_stopped) (vps_data w u))"
      "disk_vps_data (cpu_monitor_wake hi True w) = (\<lambda>u. map_option (map mark_stopped) (vps_data w u))"
      "vps_data (cpu_monitor_wake hi False w) = vps_data w"
      "disk_vps_data (cpu_monitor_wake hi False w) = disk_vps_data w"
      using wake_flip [OF live hi] by simp_all }
  { assume "\<not> lo > CPU_THRESHOLD"
    then show "cpu_monitor_wake lo ok w = logmsg (CpuUsage lo) w"
      using wake_below [OF live] by simp }
  { assume "\<exists>s \<in> set samples. fst s > CPU_THRESHOLD \<and> snd s"
    then show "\<forall>u lst v. vps_data (cpu_monitor samples w) u = Some lst \<longrightarrow> v \<in> set lst
             \<longrightarrow> status v \<noteq> Some ''running''"
      using run_with_successful_stop [OF live] by blast }
qed

text \<open>
  On the state with one running server and the samples 50, 95, 95, 40: two stops, and
  the server is recorded as stopped; a sample of 90 changes nothing but the log.
\<close>

theorem monitor_stops_on_every_sample_above_threshold_witness:
  "cpu_thread_alive one_created \<and> cpu_monitor_active one_created
   \<and> map status (vps_list_of one_created ''7'') = [Some ''running'']
   \<and> stops_issued (cpu_monitor [(50, True), (95, True), (95, True), (40, True)] one_created)
       = stops_issued one_created + 2
   \<and> (95::real) > CPU_THRESHOLD
   \<and> stops_issued (cpu_monitor_wake 95 True one_created) = stops_issued one_created + 1
   \<and> map status (vps_list_of (cpu_monitor_wake 95 True one_created) ''7'') = [Some ''stopped'']
   \<and> map status (vps_list_of (cpu_monitor_wake 95 False one_created) ''7'') = [Some ''running'']
   \<and> \<not> (90::real) > CPU_THRESHOLD
   \<and> cpu_monitor_wake 90 True one_created = logmsg (CpuUsage 90) one_created
   \<and> map status
         (vps_list_of (cpu_monitor [(50, True), (95, True), (95, True), (40, True)] one_created) ''7'')
       = [Some ''stopped'']"
proof -
  have ex: "\<exists>s \<in> set [(50::real, True), (95, True), (95, True), (40, True)]. fst s > CPU_THRESHOLD \<and> snd s"
    by (simp add: CPU_THRESHOLD_def)
  note T = monitor_stops_on_every_sample_above_threshold
        [OF one_created_flags, of "[(50, True), (95, True), (95, True), (40, True)]" 95 True 90]
  have none: "\<forall>u lst v. vps_data (cpu_monitor [(50, True), (95, True), (95, True), (40, True)]
                                one_created) u = Some lst
                 \<longrightarrow> v \<in> set lst \<longrightarrow> status v \<noteq> Some ''running''"
    using T ex by blast
  have run: "map status
         (vps_list_of (cpu_monitor [(50, True), (95, True), (95, True), (40, True)] one_created) ''7'')
       = [Some ''stopped'']"
    by (simp add: cpu_monitor_wake_def cpu_monitor_body_def one_created_flags one_created_eval
        CPU_THRESHOLD_def logmsg_def save_data_def stop_records_def mark_stopped_def
        vps_list_of_def Let_def)
  show ?thesis
    using run one_created_flags one_created_eval T
    by (simp add: CPU_THRESHOLD_def vps_list_of_def mark_stopped_def)
qed

lemma dead_thread_stays:
  "\<not> cpu_thread_alive w \<Longrightarrow>
     \<not> cpu_thread_alive (run_events es w) \<and> samples_taken (run_events es w) = samples_taken w
     \<and> stops_issued (run_events es w) = stops_issued w"
proof (induction es arbitrary: w)
  case Nil
  then show ?case by simp
next
  case (Cons e es)
  show ?case
  proof (cases e)
    case (Wake u ok)
    with Cons show ?thesis by (simp add: cpu_monitor_wake_def)
  next
    case (Command act)
    have "\<not> cpu_thread_alive (snd (slash_cpu_monitor act w))"
      "samples_taken (snd (slash_cpu_monitor act w)) = samples_taken w"
      "stops_issued (snd (slash_cpu_monitor act w)) = stops_issued w"
      using Cons.prems by (simp_all add: slash_cpu_monitor_def samples_taken_def stops_issued_def)
    with Cons.IH [of "snd (slash_cpu_monitor act w)"] Command show ?thesis by simp
  qed
qed

text \<open>
  C6 does not hold of the code. The operator disables the monitor, the thread wakes once
  and reads the flag, the operator enables the monitor again, the thread's next two
  wake-ups would fall on samples of 95: the flag is set again, but the thread has left
  \<open>cpu_monitor\<close>, no sample is taken and no stop is issued. By \<open>dead_thread_stays\<close> no
  later command or wake-up changes that.
\<close>

theorem monitor_does_not_resume_after_enable:
  "cpu_monitor_active (run_events [Command ''disable'', Wake 95 True, Command ''enable'',
       Wake 95 True, Wake 95 True] initial_world)
   \<and> \<not> cpu_thread_alive (run_events [Command ''disable'', Wake 95 True, Command ''enable'',
       Wake 95 True, Wake 95 True] initial_world)
   \<and> samples_taken (run_events [Command ''disable'', Wake 95 True, Command ''enable'',
       Wake 95 True, Wake 95 True] initial_world) = 0
   \<and> stops_issued (run_events [Command ''disable'', Wake 95 True, Command ''enable'',
       Wake 95 True, Wake 95 True] initial_world) = 0"
  by (simp add: slash_cpu_monitor_def lower_def lower_char_def cpu_monitor_wake_def initial_world_def
      samples_taken_def stops_issued_def)

section \<open>Creation\<close>

text \<open>
  C9. With \<open>ram \<le> 0\<close> or \<open>cpu \<le> 0\<close>, \<open>slash_create\<close> answers with the error embed
  \<open>Invalid Specs\<close> and returns the state as it was: no command line is handed to the
  runtime, and the inventory and the saved files are unchanged.
\<close>

theorem slash_create_rejects_nonpositive:
  "ram_gb \<le> 0 \<or> cpus \<le> 0 \<Longrightarrow>
     slash_create rt now notify user_id ram_gb cpus ip4 ip6 w
         = ([ErrorEmbed ''Invalid Specs'' ''RAM and CPU must be positive integers.''], w)
     \<and> calls (snd (slash_create rt now notify user_id ram_gb cpus ip4 ip6 w)) = calls w
     \<and> vps_data (snd (slash_create rt now notify user_id ram_gb cpus ip4 ip6 w)) = vps_data w
     \<and> disk_vps_data (snd (slash_create rt now notify user_id ram_gb cpus ip4 ip6 w)) = disk_vps_data w"
  by (simp add: slash_create_def)

theorem slash_create_rejects_nonpositive_witness:
  "((0::int) \<le> 0 \<or> (1::int) \<le> 0)
   \<and> slash_create runtime_ok ''t1'' None ''7'' 0 1 None None initial_world
       = ([ErrorEmbed ''Invalid Specs'' ''RAM and CPU must be positive integers.''], initial_world)
   \<and> calls (snd (slash_create runtime_ok ''t1'' None ''7'' 0 1 None None initial_world)) = []"
  using slash_create_rejects_nonpositive
    [of 0 1 runtime_ok "''t1''" None "''7''" None None initial_world]
  by (simp add: initial_world_def)


lemma two_created_first_deleted_eval:
  "vps_data (two_created_first_deleted runtime_ok) =
     [''7'' \<mapsto> [\<lparr>container_name = ''vps-7-2'', ram = ''2GB'', cpu = ''1'', storage = ''10GB'',
        status = Some ''running'', created_at = Some ''t2'', ipv4 = Some ''Error'',
        ipv6 = Some ''Error'', plan = None, processor = None, shared_with = Some []\<rparr>]]"
  "vps_data (two_created_first_deleted (runtime_refusing 5)) =
     [''7'' \<mapsto> [\<lparr>container_name = ''vps-7-2'', ram = ''2GB'', cpu = ''1'', storage = ''10GB'',
        status = Some ''running'', created_at = Some ''t2'', ipv4 = Some ''Error'',
        ipv6 = Some ''Error'', plan = None, processor = None, shared_with = Some []\<rparr>]]"
  "length (calls (two_created_first_deleted runtime_ok)) = 5"
  "length (calls (two_created_first_deleted (runtime_refusing 5))) = 5"
  by (simp_all add: two_created_first_deleted_def slash_create_def slash_delete_vps_def
      initial_world_def runtime_ok_def runtime_refusing_def ensure_list_def del_at_def
      vps_list_of_def container_id_def str_nat.simps digit_char_def launch_cmd_def execute_incus_def
      run_result_def string_eval str_int_def assign_ips_def get_container_ips_def truthy_def logmsg_def
      append_and_save_def save_data_def Let_def)

lemma vps_list_of_ensure_list: "vps_list_of (ensure_list u w) u' = vps_list_of w u'"
  by (simp add: vps_list_of_def ensure_list_def)

lemma ensure_list_disk:
  "disk_vps_data (ensure_list u w) = disk_vps_data w
   \<and> disk_user_data (ensure_list u w) = disk_user_data w
   \<and> disk_admin_data (ensure_list u w) = disk_admin_data w"
  by (simp add: ensure_list_def)

text \<open>
  C3, as claimed, fails. Tenant 7 has been given two servers and the first was deleted,
  so the list of tenant 7 holds \<open>vps-7-2\<close> alone. The next \<open>slash_create\<close> derives
  \<open>vps-7-2\<close> again; its launch is refused, the command answers \<open>Creation Failed\<close>, and
  a record for the derived name is in the inventory afterwards (the one that was there).
\<close>

theorem failed_launch_leaves_record_with_derived_id:
  "fst (slash_create (runtime_refusing 5) ''t3'' None ''7'' 2 1 None None
          (two_created_first_deleted (runtime_refusing 5)))
     = [InfoEmbed ''Creating VPS'',
        ErrorEmbed ''Creation Failed''
          (''Error: Error: Instance already exists. Command: ''
             @ launch_cmd ''vps-7-2'' ''2048'' ''1'' @ ''. STDOUT: '')]
   \<and> container_id ''7'' (length (vps_list_of (two_created_first_deleted (runtime_refusing 5)) ''7'') + 1)
       \<in> set (map container_name
            (vps_list_of (snd (slash_create (runtime_refusing 5) ''t3'' None ''7'' 2 1 None None
                                 (two_created_first_deleted (runtime_refusing 5)))) ''7''))"
  by (simp add: two_created_first_deleted_eval slash_create_def ensure_list_def
      vps_list_of_def container_id_def str_nat.simps digit_char_def launch_cmd_def execute_incus_def
      run_result_def string_eval str_int_def logmsg_def error_msg_def
      Let_def runtime_refusing_def)

text \<open>
  C3, amended. For \<open>ram > 0\<close> and \<open>cpu > 0\<close>: if the launch call raises, every
  tenant's list of records is what it was before (nothing is appended), the saved
  inventory is unchanged and the command answers \<open>Creation Failed\<close> with the error; hence
  the owner's list changes only if the launch call returned.
\<close>

theorem slash_create_appends_only_after_launch:
  assumes pos: "0 < ram_gb" "0 < cpus"
  shows
   "(fst (execute_incus rt
            (launch_cmd (container_id user_id (length (vps_list_of w user_id) + 1))
               (str_int (ram_gb * 1024)) (str_int cpus)) 300 (ensure_list user_id w)) = Inl e
       \<longrightarrow> (\<forall>u. vps_list_of (snd (slash_create rt now notify user_id ram_gb cpus ip4 ip6 w)) u
                   = vps_list_of w u)
           \<and> disk_vps_data (snd (slash_create rt now notify user_id ram_gb cpus ip4 ip6 w))
                   = disk_vps_data w
           \<and> fst (slash_create rt now notify user_id ram_gb cpus ip4 ip6 w)
                   = [InfoEmbed ''Creating VPS'', ErrorEmbed ''Creation Failed'' (''Error: '' @ e)])
    \<and> (vps_list_of (snd (slash_create rt now notify user_id ram_gb cpus ip4 ip6 w)) user_id
           \<noteq> vps_list_of w user_id
       \<longrightarrow> (\<exists>val. fst (execute_incus rt
            (launch_cmd (container_id user_id (length (vps_list_of w user_id) + 1))
               (str_int (ram_gb * 1024)) (str_int cpus)) 300 (ensure_list user_id w)) = Inr val))"
proof -
  let ?cmd = "launch_cmd (container_id user_id (length (vps_list_of w user_id) + 1))
               (str_int (ram_gb * 1024)) (str_int cpus)"
  let ?w0 = "ensure_list user_id w"
  let ?res = "slash_create rt now notify user_id ram_gb cpus ip4 ip6 w"
  obtain r w1 where ex: "execute_incus rt ?cmd 300 ?w0 = (r, w1)"
    by (cases "execute_incus rt ?cmd 300 ?w0")
  have keep: "vps_data w1 = vps_data ?w0" "disk_vps_data w1 = disk_vps_data ?w0"
    using execute_incus_keeps [OF ex] by simp_all
  have fail: "r = Inl e \<Longrightarrow> ?res = ([InfoEmbed ''Creating VPS'',
        ErrorEmbed ''Creation Failed'' (''Error: '' @ e)], w1)" for e
    using pos ex by (simp add: slash_create_def vps_list_of_ensure_list Let_def)
  have same: "vps_list_of w1 u = vps_list_of w u" for u
    using keep(1) vps_list_of_ensure_list [of user_id w u] by (simp add: vps_list_of_def)
  have A: "r = Inl e \<Longrightarrow> (\<forall>u. vps_list_of (snd ?res) u = vps_list_of w u)
           \<and> disk_vps_data (snd ?res) = disk_vps_data w
           \<and> fst ?res = [InfoEmbed ''Creating VPS'', ErrorEmbed ''Creation Failed'' (''Error: '' @ e)]"
    using fail [of e] same keep(2) ensure_list_disk [of user_id w] by simp
  have B: "vps_list_of (snd ?res) user_id \<noteq> vps_list_of w user_id \<Longrightarrow> \<exists>val. r = Inr val"
  proof (cases r)
    case (Inl e')
    assume "vps_list_of (snd ?res) user_id \<noteq> vps_list_of w user_id"
    with fail [OF Inl] same show ?thesis by simp
  next
    case (Inr val)
    then show ?thesis by blast
  qed
  from A B ex show ?thesis by simp
qed

text \<open>
  Both halves at tenant 7 and the empty inventory: on a runtime that refuses the launch
  nothing is appended; on a runtime that accepts it the list changes and the launch call
  returned.
\<close>

theorem slash_create_appends_only_after_launch_witness:
  "(0::int) < 2 \<and> (0::int) < 1
   \<and> fst (execute_incus (runtime_refusing 0)
            (launch_cmd (container_id ''7'' (length (vps_list_of initial_world ''7'') + 1))
               (str_int (2 * 1024)) (str_int 1)) 300 (ensure_list ''7'' initial_world))
       = Inl (''Error: Instance already exists. Command: ''
                @ launch_cmd ''vps-7-1'' ''2048'' ''1'' @ ''. STDOUT: '')
   \<and> (\<forall>u. vps_list_of (snd (slash_create (runtime_refusing 0) ''t1'' None ''7'' 2 1 None None
                               initial_world)) u
             = vps_list_of initial_world u)
   \<and> vps_list_of (snd (slash_create runtime_ok ''t1'' None ''7'' 2 1 None None initial_world)) ''7''
       \<noteq> vps_list_of initial_world ''7''
   \<and> (\<exists>val. fst (execute_incus runtime_ok
            (launch_cmd (container_id ''7'' (length (vps_list_of initial_world ''7'') + 1))
               (str_int (2 * 1024)) (str_int 1)) 300 (ensure_list ''7'' initial_world)) = Inr val)"
proof -
  have h: "fst (execute_incus (runtime_refusing 0)
            (launch_cmd (container_id ''7'' (length (vps_list_of initial_world ''7'') + 1))
               (str_int (2 * 1024)) (str_int 1)) 300 (ensure_list ''7'' initial_world))
       = Inl (''Error: Instance already exists. Command: ''
                @ launch_cmd ''vps-7-1'' ''2048'' ''1'' @ ''. STDOUT: '')"
    by (simp add: initial_world_def ensure_list_def
        vps_list_of_def container_id_def str_nat.simps digit_char_def launch_cmd_def execute_incus_def
        run_result_def string_eval str_int_def logmsg_def error_msg_def
        Let_def runtime_refusing_def)
  have g: "vps_list_of (snd (slash_create runtime_ok ''t1'' None ''7'' 2 1 None None initial_world)) ''7''
       \<noteq> vps_list_of initial_world ''7''"
    using one_created_eval by (simp add: one_created_def vps_list_of_def initial_world_def)
  show ?thesis
    using h g
      slash_create_appends_only_after_launch
        [of 2 1 "runtime_refusing 0" "''7''" initial_world
            "''Error: Instance already exists. Command: '' @ launch_cmd ''vps-7-1'' ''2048'' ''1''
               @ ''. STDOUT: ''"
            "''t1''" None None None]
      slash_create_appends_only_after_launch
        [of 2 1 runtime_ok "''7''" initial_world "[]" "''t1''" None None None]
    by simp
qed

section \<open>Uniqueness of container names\<close>

text \<open>
  C4 does not hold of the code. Tenant 7 is given two servers and the first is deleted:
  the record left is \<open>vps-7-2\<close>. The next \<open>slash_create\<close> counts one record and derives
  \<open>vps-7-2\<close> once more, a name in use; when the runtime accepts the launch, the
  inventory of tenant 7 holds two records with that name.
\<close>

theorem duplicate_container_id_after_delete_and_create:
  "map container_name (vps_list_of (two_created_first_deleted runtime_ok) ''7'') = [''vps-7-2'']
   \<and> container_id ''7'' (length (vps_list_of (two_created_first_deleted runtime_ok) ''7'') + 1)
       = ''vps-7-2''
   \<and> map container_name
        (vps_list_of (snd (slash_create runtime_ok ''t3'' None ''7'' 2 1 None None
                         (two_created_first_deleted runtime_ok))) ''7'')
       = [''vps-7-2'', ''vps-7-2'']
   \<and> \<not> distinct (map container_name
        (vps_list_of (snd (slash_create runtime_ok ''t3'' None ''7'' 2 1 None None
                         (two_created_first_deleted runtime_ok))) ''7''))"
  by (simp add: two_created_first_deleted_eval slash_create_def ensure_list_def
      vps_list_of_def container_id_def str_nat.simps digit_char_def launch_cmd_def execute_incus_def
      run_result_def string_eval str_int_def assign_ips_def get_container_ips_def truthy_def logmsg_def
      append_and_save_def save_data_def Let_def runtime_ok_def)

section \<open>The management view\<close>

text \<open>
  C2. Whenever the caller passes the access check and the view's record resolves, the
  Start and Stop buttons end in their \<open>except\<close> branch with the \<open>NameError\<close> of
  \<open>execute_lxc\<close>; the Confirm button of a reinstall always does. None of the three
  buttons, on any invocation, changes the state: the records (status and creation time
  included), the saved files and the list of runtime calls stay as they were.
\<close>

theorem manage_actions_raise_name_error:
  "((caller = mv_user_id view \<or> is_admin view) \<and> view_vps view w = Some v \<longrightarrow>
       action_callback rt view caller Start w
         = ([ErrorEmbed ''Start Failed'' (name_error ''execute_lxc'')], w)
     \<and> action_callback rt view caller Stop w
         = ([ErrorEmbed ''Stop Failed'' (name_error ''execute_lxc'')], w))
   \<and> confirm rt now cv w
       = ([InfoEmbed ''Deleting Container'',
           ErrorEmbed ''Reinstall Failed'' (''Error: '' @ name_error ''execute_lxc'')], w)
   \<and> snd (action_callback rt view caller act w) = w"
  by (auto simp: action_callback_def confirm_def call_global_def module_names_def
      split: option.splits action.splits)

theorem manage_actions_raise_name_error_witness:
  "(''7'' = mv_user_id own_view \<or> is_admin own_view)
   \<and> view_vps own_view one_created = Some (hd (vps_list_of one_created ''7''))
   \<and> action_callback runtime_ok own_view ''7'' Start one_created
       = ([ErrorEmbed ''Start Failed'' (name_error ''execute_lxc'')], one_created)
   \<and> action_callback runtime_ok own_view ''7'' Stop one_created
       = ([ErrorEmbed ''Stop Failed'' (name_error ''execute_lxc'')], one_created)"
proof -
  have h: "view_vps own_view one_created = Some (hd (vps_list_of one_created ''7''))"
    by (simp add: view_vps_def own_view_def one_created_eval vps_list_of_def)
  show ?thesis
    using h manage_actions_raise_name_error
      [of "''7''" own_view one_created "hd (vps_list_of one_created ''7'')" runtime_ok "''t''"
          "\<lparr>cv_container_name = ''vps-7-1'', cv_vps = hd (vps_list_of one_created ''7''),
            cv_owner_id = ''7'', cv_selected_index = 0\<rparr>" Start]
    by (simp add: own_view_def)
qed

section \<open>Sharing\<close>











section \<open>Record Store: normalisation on load\<close>

lemma load_entry_fst: "fst (load_entry (m, lg) (uid, v)) = fst (load_entry (m, lg') (uid, v))"
  by (cases v) simp_all

lemma foldl_load_fst:
  "fst (foldl load_entry (m, lg) xs) = fst (foldl load_entry (m, lg') xs)"
proof (induction xs arbitrary: m lg lg')
  case Nil
  then show ?case by simp
next
  case (Cons x xs)
  obtain uid v where x: "x = (uid, v)" by (cases x)
  obtain m1 l1 where a: "load_entry (m, lg) (uid, v) = (m1, l1)"
    by (cases "load_entry (m, lg) (uid, v)")
  obtain m2 l2 where b: "load_entry (m, lg') (uid, v) = (m2, l2)"
    by (cases "load_entry (m, lg') (uid, v)")
  have "m1 = m2" using load_entry_fst [of m lg uid v lg'] a b by simp
  then show ?case using Cons.IH [of m1 l1 l2] a b x by simp
qed

lemma load_entry_other_key:
  "k \<noteq> uid \<Longrightarrow> fst (load_entry (m, lg) (k, v)) uid = m uid"
  by (cases v) simp_all

lemma foldl_load_other_keys:
  "uid \<notin> fst ` set xs \<Longrightarrow> fst (foldl load_entry (m, lg) xs) uid = m uid"
proof (induction xs arbitrary: m lg)
  case Nil
  then show ?case by simp
next
  case (Cons x xs)
  obtain k v where x: "x = (k, v)" by (cases x)
  obtain m1 l1 where a: "load_entry (m, lg) (k, v) = (m1, l1)"
    by (cases "load_entry (m, lg) (k, v)")
  from Cons.prems x have k: "k \<noteq> uid" and rest: "uid \<notin> fst ` set xs" by auto
  have "m1 uid = m uid" using load_entry_other_key [OF k, of m lg v] a by simp
  then show ?case using Cons.IH [OF rest, of m1 l1] a x by simp
qed

lemma load_entry_logs: "set lg \<subseteq> set (snd (load_entry (m, lg) (k, v)))"
  by (cases v) auto

lemma foldl_load_logs: "set lg \<subseteq> set (snd (foldl load_entry (m, lg) xs))"
proof (induction xs arbitrary: m lg)
  case Nil
  then show ?case by simp
next
  case (Cons x xs)
  obtain k v where x: "x = (k, v)" by (cases x)
  obtain m1 l1 where a: "load_entry (m, lg) (k, v) = (m1, l1)"
    by (cases "load_entry (m, lg) (k, v)")
  have "set lg \<subseteq> set l1" using load_entry_logs [of lg m k v] a by simp
  moreover have "set l1 \<subseteq> set (snd (foldl load_entry (m1, l1) xs))" by (rule Cons.IH)
  ultimately show ?case using a x by auto
qed

lemma load_entry_unknown:
  "unknown_shape v \<Longrightarrow> load_entry (m, lg) (uid, v) = (m, lg @ [UnknownFormat uid])"
  by (cases v) simp_all

lemma loaded_inventory_at:
  assumes "uid \<notin> fst ` set post"
  shows "loaded_inventory (Parsed (JDict (pre @ (uid, v) # post))) uid
           = fst (load_entry (foldl load_entry (Map.empty, []) pre) (uid, v)) uid"
proof -
  obtain m1 l1 where a: "load_entry (foldl load_entry (Map.empty, []) pre) (uid, v) = (m1, l1)"
    by (cases "load_entry (foldl load_entry (Map.empty, []) pre) (uid, v)")
  have "fst (foldl load_entry (m1, l1) post) uid = m1 uid"
    by (rule foldl_load_other_keys [OF assms])
  then show ?thesis
    using a by (auto simp: loaded_inventory_def load_vps_data_def split: prod.splits)
qed

text \<open>
  C7, amended. For a tenant key that occurs once in the document (as every key of a
  dictionary does): a record, that is a dictionary with the key \<open>container_name\<close>,
  loads as the one-element list holding it; a dictionary without the key
  \<open>container_name\<close> loads as the list of its values; a list loads as itself. So a
  record, a mapping to that record under any key other than \<open>container_name\<close>, and
  the list of that record load alike. A value of any other shape is left out, a warning
  naming the tenant is logged, the loader still returns, and every tenant's list is what
  it would be without that entry.
\<close>

theorem load_vps_data_normalizes:
  assumes post: "uid \<notin> fst ` set post"
  shows
   "(''container_name'' \<in> fst ` set r \<longrightarrow>
       loaded_inventory (Parsed (JDict (pre @ (uid, JDict r) # post))) uid = Some [JDict r])
    \<and> (''container_name'' \<notin> fst ` set d \<longrightarrow>
       loaded_inventory (Parsed (JDict (pre @ (uid, JDict d) # post))) uid = Some (map snd d))
    \<and> loaded_inventory (Parsed (JDict (pre @ (uid, JList l) # post))) uid = Some l
    \<and> (unknown_shape v \<longrightarrow>
         (\<exists>m lg. load_vps_data (Parsed (JDict (pre @ (uid, v) # post))) = Inr (m, lg)
            \<and> UnknownFormat uid \<in> set lg
            \<and> (\<forall>u. loaded_inventory (Parsed (JDict (pre @ (uid, v) # post))) u
                     = loaded_inventory (Parsed (JDict (pre @ post))) u)))"
proof (intro conjI impI)
  obtain m lg where acc: "foldl load_entry (Map.empty, []) pre = (m, lg)"
    by (cases "foldl load_entry (Map.empty, []) pre")
  { assume "''container_name'' \<in> fst ` set r"
    then show "loaded_inventory (Parsed (JDict (pre @ (uid, JDict r) # post))) uid = Some [JDict r]"
      using loaded_inventory_at [OF post, of pre "JDict r"] acc by simp }
  { assume "''container_name'' \<notin> fst ` set d"
    then show "loaded_inventory (Parsed (JDict (pre @ (uid, JDict d) # post))) uid = Some (map snd d)"
      using loaded_inventory_at [OF post, of pre "JDict d"] acc by simp }
  show "loaded_inventory (Parsed (JDict (pre @ (uid, JList l) # post))) uid = Some l"
    using loaded_inventory_at [OF post, of pre "JList l"] acc by simp
  { assume u: "unknown_shape v"
    let ?res = "foldl load_entry (m, lg @ [UnknownFormat uid]) post"
    have full: "load_vps_data (Parsed (JDict (pre @ (uid, v) # post))) = Inr ?res"
      using acc load_entry_unknown [OF u] by (simp add: load_vps_data_def)
    have "UnknownFormat uid \<in> set (snd ?res)"
      using foldl_load_logs [of "lg @ [UnknownFormat uid]" m post] by auto
    moreover have "fst ?res = fst (foldl load_entry (m, lg) post)"
      by (rule foldl_load_fst)
    then have "\<forall>u. loaded_inventory (Parsed (JDict (pre @ (uid, v) # post))) u
                     = loaded_inventory (Parsed (JDict (pre @ post))) u"
      using full acc by (auto simp: loaded_inventory_def load_vps_data_def split: prod.splits)
    ultimately
    show "\<exists>m lg. load_vps_data (Parsed (JDict (pre @ (uid, v) # post))) = Inr (m, lg)
            \<and> UnknownFormat uid \<in> set lg
            \<and> (\<forall>u. loaded_inventory (Parsed (JDict (pre @ (uid, v) # post))) u
                     = loaded_inventory (Parsed (JDict (pre @ post))) u)"
      using full by (metis prod.collapse) }
qed

theorem load_vps_data_normalizes_witness:
  "''42'' \<notin> fst ` set [(''43'', JList [])]
   \<and> loaded_inventory (Parsed (JDict [(''42'', example_record), (''43'', JList [])])) ''42''
       = Some [example_record]
   \<and> loaded_inventory (Parsed (JDict [(''42'', JDict [(''1'', example_record)]), (''43'', JList [])])) ''42''
       = Some [example_record]
   \<and> loaded_inventory (Parsed (JDict [(''42'', JList [example_record]), (''43'', JList [])])) ''42''
       = Some [example_record]
   \<and> UnknownFormat ''42'' \<in> set (loaded_warnings (Parsed (JDict [(''42'', JStr ''x''), (''43'', JList [])])))"
  using load_vps_data_normalizes
    [of "''42''" "[(''43'', JList [])]"
        "[(''container_name'', JStr ''vps-42-1''), (''status'', JStr ''running'')]" "[]"
        "[(''1'', example_record)]" "[example_record]" "JStr ''x''"]
  by (auto simp: example_record_def loaded_warnings_def)

text \<open>
  C7, as claimed, fails. A mapping whose one key is \<open>container_name\<close> and whose value
  is a record is taken for a record itself: it loads as the list holding the whole
  mapping, not as the list of its values, which is what the list encoding gives.
\<close>

theorem mapping_keyed_container_name_is_kept_whole:
  "loaded_inventory (Parsed (JDict [(''42'', JDict [(''container_name'', example_record)])])) ''42''
     = Some [JDict [(''container_name'', example_record)]]
   \<and> loaded_inventory (Parsed (JDict [(''42'', JList [example_record])])) ''42''
     = Some [example_record]
   \<and> loaded_inventory (Parsed (JDict [(''42'', JDict [(''container_name'', example_record)])])) ''42''
     \<noteq> loaded_inventory (Parsed (JDict [(''42'', JList [example_record])])) ''42''"
  by (simp add: loaded_inventory_def load_vps_data_def example_record_def)

section \<open>Credits\<close>

lemma credits_nonneg_set:
  "credits_nonneg w \<Longrightarrow> 0 \<le> c \<Longrightarrow> credits_nonneg (set_credits u c w)"
  by (simp add: credits_nonneg_def set_credits_def)

lemma credits_nonneg_ensure: "credits_nonneg w \<Longrightarrow> credits_nonneg (ensure_account u w)"
  by (simp add: credits_nonneg_def ensure_account_def)

lemma credits_nonneg_credits: "credits_nonneg w \<Longrightarrow> 0 \<le> credits w u"
  by (auto simp: credits_nonneg_def credits_def split: option.splits)

lemma credits_nonneg_cong: "user_data w' = user_data w \<Longrightarrow> credits_nonneg w' = credits_nonneg w"
  by (simp add: credits_nonneg_def)

lemma save_data_user_data: "user_data (save_data w) = user_data w"
  by (simp add: save_data_def)

lemma ensure_list_user_data: "user_data (ensure_list u w) = user_data w"
  by (simp add: ensure_list_def)

lemma append_and_save_user_data:
  "user_data (snd (append_and_save ok failed notify u v w)) = user_data w"
  by (simp add: append_and_save_def save_data_def Let_def split: option.splits)

lemma append_and_save_keeps_user_data:
  "append_and_save ok failed notify u v w = (rs, w') \<Longrightarrow> user_data w' = user_data w"
  using append_and_save_user_data [of ok failed notify u v w] by simp

lemma slash_buywc_user_data:
  "user_data (snd (slash_buywc rt now notify u p proc ip4 ip6 w))
     = (case (plans p, prices p proc) of
          (Some pl, Some cost) \<Rightarrow>
            if credits (ensure_account u w) u < cost then user_data (ensure_account u w)
            else (user_data (ensure_account u w))(u \<mapsto> credits (ensure_account u w) u - cost)
        | _ \<Rightarrow> user_data w)"
proof (cases "plans p")
  case None
  then show ?thesis by (simp add: slash_buywc_def)
next
  case (Some pl)
  obtain ram_gb cpu_str storage_str where pl: "pl = (ram_gb, cpu_str, storage_str)"
    by (cases pl)
  show ?thesis
  proof (cases "prices p proc")
    case None
    with Some pl show ?thesis by (simp add: slash_buywc_def)
  next
    case (Some cost)
    let ?wa = "ensure_account u w"
    show ?thesis
    proof (cases "credits ?wa u < cost")
      case True
      with Some \<open>plans p = Some pl\<close> pl show ?thesis by (simp add: slash_buywc_def Let_def)
    next
      case False
      let ?wb = "?wa\<lparr>user_data := (user_data ?wa)(u \<mapsto> credits ?wa u - cost)\<rparr>"
      let ?w0 = "ensure_list u ?wb"
      let ?cmd = "launch_cmd (container_id u (length (vps_list_of ?w0 u) + 1)) (str_nat (ram_gb * 1024)) cpu_str"
      obtain r w1 where ex: "execute_incus rt ?cmd 300 ?w0 = (r, w1)"
        by (cases "execute_incus rt ?cmd 300 ?w0")
      have k1: "user_data w1 = user_data ?wb"
        using execute_incus_keeps [OF ex] by (simp add: ensure_list_user_data)
      show ?thesis
      proof (cases r)
        case (Inl e)
        with ex k1 False Some \<open>plans p = Some pl\<close> pl show ?thesis
          by (simp add: slash_buywc_def Let_def)
      next
        case (Inr val)
        obtain a4 a6 warn w2 where as: "assign_ips rt (container_id u (length (vps_list_of ?w0 u) + 1)) ip4 ip6 w1 = ((a4, a6), warn, w2)"
          by (metis prod.exhaust)
        have k2: "user_data w2 = user_data w1" using assign_ips_keeps [OF as] by simp
        obtain rs w3 where ap: "append_and_save ''VPS Purchased Successfully'' ''Purchase Failed''
            notify u
            \<lparr>container_name = container_id u (length (vps_list_of ?w0 u) + 1),
              ram = str_nat ram_gb @ ''GB'', cpu = cpu_str,
              storage = storage_str, status = Some ''running'',
              created_at = Some now, ipv4 = Some a4, ipv6 = Some a6,
              plan = Some p, processor = Some proc, shared_with = Some []\<rparr> w2 = (rs, w3)"
          by (metis prod.exhaust)
        have k3: "user_data w3 = user_data w2"
          by (rule append_and_save_keeps_user_data [OF ap])
        show ?thesis
          using Inr ex as ap k1 k2 k3 False Some \<open>plans p = Some pl\<close> pl
          by (simp add: slash_buywc_def Let_def)
      qed
    qed
  qed
qed


lemma admin_credits_nonneg:
  assumes inv: "credits_nonneg w"
  shows "credits_nonneg (snd (slash_admin_credits u amount w))"
proof -
  have "0 \<le> credits (ensure_account u w) u"
    using inv by (intro credits_nonneg_credits credits_nonneg_ensure)
  then show ?thesis
    using inv
    by (simp add: slash_admin_credits_def Let_def credits_nonneg_set credits_nonneg_ensure
        credits_nonneg_cong [OF save_data_user_data])
qed

lemma buywc_nonneg:
  assumes inv: "credits_nonneg w"
  shows "credits_nonneg (snd (slash_buywc rt now notify u p proc ip4 ip6 w))"
proof -
  let ?wa = "ensure_account u w"
  have inva: "credits_nonneg ?wa" using inv by (rule credits_nonneg_ensure)
  have "credits_nonneg w'" if "user_data w' = (user_data ?wa)(u \<mapsto> credits ?wa u - cost)"
      "\<not> credits ?wa u < cost" for w' cost
    using that inva by (simp add: credits_nonneg_def)
  then show ?thesis
    using inv inva slash_buywc_user_data [of rt now notify u p proc ip4 ip6 w]
    by (auto simp: credits_nonneg_def split: option.splits if_splits)
qed

lemma admin_remove_credits_nonneg:
  assumes inv: "credits_nonneg w"
  shows "credits_nonneg (snd (slash_admin_remove_credits u amount_or_all w))"
proof -
  have inva: "credits_nonneg (ensure_account u w)" using inv by (rule credits_nonneg_ensure)
  then have "0 \<le> credits (ensure_account u w) u" by (rule credits_nonneg_credits)
  with inva show ?thesis
    by (auto simp: slash_admin_remove_credits_def Let_def credits_nonneg_set
        credits_nonneg_cong [OF save_data_user_data] split: option.splits)
qed

lemma slash_credits_nonneg:
  "credits_nonneg w \<Longrightarrow> credits_nonneg (snd (slash_credits u w))"
  by (simp add: slash_credits_def credits_nonneg_set credits_nonneg_cong [OF save_data_user_data])

lemma apply_credit_op_nonneg:
  "credits_nonneg w \<Longrightarrow> credits_nonneg (apply_credit_op rt op w)"
  by (cases op)
     (simp_all add: admin_credits_nonneg buywc_nonneg admin_remove_credits_nonneg
        slash_credits_nonneg)

lemma run_credit_ops_nonneg:
  "credits_nonneg w \<Longrightarrow> credits_nonneg (run_credit_ops rt ops w)"
  by (induction ops arbitrary: w) (simp_all add: apply_credit_op_nonneg)

lemma initial_world_nonneg: "credits_nonneg initial_world"
  by (simp add: credits_nonneg_def initial_world_def)

text \<open>
  C10. The ledger of the initial state has no negative balance, and after any run of
  credit commands (\<open>slash_admin_credits\<close>, \<open>slash_buywc\<close>,
  \<open>slash_admin_remove_credits\<close>, \<open>slash_credits\<close>) from a ledger without a negative
  balance none is negative, whatever the arguments and whatever the runtime answers.
  Adding a non-positive amount is refused and changes nothing; a purchase whose cost
  exceeds the balance is refused with the balance as it was and without a runtime call;
  removing \<open>all\<close> leaves exactly 0; removing a positive number removes that number or the
  whole balance, whichever is smaller.
\<close>

theorem credit_operations_keep_balances_nonnegative:
   "credits_nonneg (run_credit_ops rt ops initial_world)
    \<and> (credits_nonneg w \<longrightarrow> credits_nonneg (run_credit_ops rt ops w))
    \<and> (refused \<le> 0 \<longrightarrow> snd (slash_admin_credits u refused w) = w)
    \<and> (prices p proc = Some cost \<and> credits w u < cost \<longrightarrow>
          user_data (snd (slash_buywc rt now notify u p proc ip4 ip6 w))
            = user_data (ensure_account u w)
          \<and> calls (snd (slash_buywc rt now notify u p proc ip4 ip6 w)) = calls w)
    \<and> (lower word = ''all'' \<longrightarrow>
          user_data (snd (slash_admin_remove_credits u word w)) u = Some 0)
    \<and> (lower amount_or_all \<noteq> ''all'' \<and> py_int amount_or_all = Some n \<and> 0 < n \<longrightarrow>
          user_data (snd (slash_admin_remove_credits u amount_or_all w)) u
            = Some (credits w u - min n (credits w u)))"
proof (intro conjI impI)
  have cw: "credits (ensure_account u w) u = credits w u"
    by (simp add: credits_def ensure_account_def)
  show "credits_nonneg (run_credit_ops rt ops initial_world)"
    using initial_world_nonneg by (rule run_credit_ops_nonneg)
  { assume "credits_nonneg w"
    then show "credits_nonneg (run_credit_ops rt ops w)" by (rule run_credit_ops_nonneg) }
  { assume "refused \<le> 0"
    then show "snd (slash_admin_credits u refused w) = w"
      by (simp add: slash_admin_credits_def) }
  { assume h: "prices p proc = Some cost \<and> credits w u < cost"
    then obtain pl where pl: "plans p = Some pl"
      by (cases "plans p") (auto simp: prices_def plans_def split: if_splits)
    show "user_data (snd (slash_buywc rt now notify u p proc ip4 ip6 w)) = user_data (ensure_account u w)"
      using h pl cw slash_buywc_user_data [of rt now notify u p proc ip4 ip6 w] by simp
    obtain a b c where "pl = (a, b, c)" by (cases pl)
    with h pl cw
    show "calls (snd (slash_buywc rt now notify u p proc ip4 ip6 w)) = calls w"
      by (simp add: slash_buywc_def Let_def ensure_account_def) }
  { assume "lower word = ''all''"
    then show "user_data (snd (slash_admin_remove_credits u word w)) u = Some 0"
      by (simp add: slash_admin_remove_credits_def Let_def set_credits_def save_data_def) }
  { assume "lower amount_or_all \<noteq> ''all'' \<and> py_int amount_or_all = Some n \<and> 0 < n"
    then show "user_data (snd (slash_admin_remove_credits u amount_or_all w)) u
            = Some (credits w u - min n (credits w u))"
      using cw
      by (simp add: slash_admin_remove_credits_def Let_def set_credits_def save_data_def min_def) }
qed

lemma funded_world_eval: "user_data funded_world = [''7'' \<mapsto> 100]"
  by (simp add: funded_world_def slash_admin_credits_def initial_world_def ensure_account_def
      credits_def set_credits_def save_data_def Let_def)

text \<open>
  Tenant 7 holds 100 credits. A run of four commands (add 5, buy a Pro server on AMD,
  remove 250, query the balance) leaves no negative balance; adding -5 is refused, a Pro
  server on AMD (340 credits) is refused, \<open>ALL\<close> empties the balance and so does the
  removal of 250.
\<close>

theorem credit_operations_keep_balances_nonnegative_witness:
  "credits_nonneg funded_world
   \<and> credits_nonneg (run_credit_ops runtime_ok
        [AdminCredits ''7'' 5, Purchase ''t1'' None ''7'' ''Pro'' ''AMD'' None None,
         AdminRemoveCredits ''7'' ''250'', Credits ''7''] funded_world)
   \<and> snd (slash_admin_credits ''7'' (- 5) funded_world) = funded_world
   \<and> prices ''Pro'' ''AMD'' = Some 340 \<and> credits funded_world ''7'' < 340
   \<and> user_data (snd (slash_buywc runtime_ok ''t1'' None ''7'' ''Pro'' ''AMD'' None None funded_world))
        = user_data (ensure_account ''7'' funded_world)
   \<and> lower ''ALL'' = ''all''
   \<and> user_data (snd (slash_admin_remove_credits ''7'' ''ALL'' funded_world)) ''7'' = Some 0
   \<and> lower ''250'' \<noteq> ''all'' \<and> py_int ''250'' = Some 250
   \<and> user_data (snd (slash_admin_remove_credits ''7'' ''250'' funded_world)) ''7'' = Some 0"
proof -
  have a: "credits_nonneg funded_world"
    by (simp add: credits_nonneg_def funded_world_eval)
  have b: "prices ''Pro'' ''AMD'' = Some 340" "credits funded_world ''7'' < 340"
      "credits funded_world ''7'' = 100"
    by (simp_all add: prices_def credits_def funded_world_eval)
  have c: "lower ''ALL'' = ''all''" "lower ''250'' \<noteq> ''all''" "py_int ''250'' = Some 250"
    by (simp_all add: lower_def lower_char_def py_int_def parse_ascii_def digits_int_def
        c_isspace_def is_digit_def digits_val_def byte_def)
  show ?thesis
    using a b c
      credit_operations_keep_balances_nonnegative
        [of runtime_ok
            "[AdminCredits ''7'' 5, Purchase ''t1'' None ''7'' ''Pro'' ''AMD'' None None,
              AdminRemoveCredits ''7'' ''250'', Credits ''7'']"
            funded_world "- 5" "''7''" "''Pro''" "''AMD''" 340 "''t1''" None None None "''ALL''"
            "''250''" 250]
    by simp
qed

end
